theory Spec2Isabelle
  imports Main "HOL-Library.Sublist"
begin

section \<open>Values, claims dictionaries and string formatting\<close>

text \<open>
  The claims of a token are a Python dict from strings to JSON values. Of the JSON values
  only integers, strings and \<open>None\<close> occur in this program; \<open>dict.get\<close> answers
  \<open>None\<close> for a missing key, so a missing key and an explicit null read the same.
\<close>

datatype jval = JInt int | JStr string | JNone

type_synonym payload = "(string \<times> jval) list"

definition dict_get :: "payload \<Rightarrow> string \<Rightarrow> jval" where
  "dict_get p k = (case map_of p k of None \<Rightarrow> JNone | Some v \<Rightarrow> v)"

text \<open>Decimal rendering of an integer, as \<open>str(n)\<close> and an f-string do.\<close>

fun digits_of :: "nat \<Rightarrow> string" where
  "digits_of n =
     (if n < 10 then [''0123456789'' ! n]
      else digits_of (n div 10) @ [''0123456789'' ! (n mod 10)])"

declare digits_of.simps [simp del]

definition str_int :: "int \<Rightarrow> string" where
  "str_int i = (if i < 0 then ''-'' @ digits_of (nat (- i)) else digits_of (nat i))"

text \<open>Reading a decimal rendering back (used to show that the rendering is injective).\<close>

definition is_digit :: "char \<Rightarrow> bool" where
  "is_digit c = (c \<in> set ''0123456789'')"

definition digit_val :: "char \<Rightarrow> nat" where
  "digit_val c = length (takeWhile (\<lambda>x. x \<noteq> c) ''0123456789'')"

definition digits_val :: "string \<Rightarrow> nat" where
  "digits_val ds = foldl (\<lambda>acc c. 10 * acc + digit_val c) 0 ds"

text \<open>\<open>f"{v}"\<close> for a claim value.\<close>

fun py_str :: "jval \<Rightarrow> string" where
  "py_str (JInt i) = str_int i"
| "py_str (JStr s) = s"
| "py_str JNone = ''None''"

section \<open>External collaborators\<close>

text \<open>
  PyJWT, passlib and the process environment are not part of the repository; the service
  functions are parametrised by them.

  \<^item> \<open>jwt_header\<close>, \<open>jwt_body\<close>: \<open>jwt.encode(payload, JWT_SECRET_KEY, algorithm="HS256")\<close>
    yields the compact serialisation \<open>header.payload.signature\<close>. The first segment
    encodes the JOSE header, which depends on the algorithm only; the remaining two
    segments depend on the claims (and the secret).
  \<^item> \<open>jwt_decode\<close>: \<open>jwt.decode(token, JWT_SECRET_KEY, algorithms=["HS256"])\<close> at a
    given time: the claims, or one of the two exception classes that \<open>decode_token\<close>
    catches (\<open>ExpiredSignatureError\<close> is listed first; every other subclass of
    \<open>InvalidTokenError\<close> falls into the second handler).
  \<^item> \<open>pwd_hash\<close>, \<open>pwd_verify\<close>: \<open>pwd_context.hash\<close> and \<open>pwd_context.verify\<close>; either
    may raise (on a password the library refuses, the second also on a digest it cannot
    identify).
  \<^item> \<open>key_match\<close>: the glob matcher of the Redis \<open>KEYS\<close> command (pattern, key).
  \<^item> \<open>access_minutes\<close>, \<open>refresh_days\<close>, \<open>session_ttl\<close>: the module constants
    \<open>JWT_ACCESS_TOKEN_EXPIRE_MINUTES\<close>, \<open>JWT_REFRESH_TOKEN_EXPIRE_DAYS\<close>, \<open>SESSION_TTL\<close>,
    read from the environment.
\<close>

datatype jwt_error = ExpiredSignatureError | InvalidTokenError

datatype exn =
    RedisConnectionError | RedisResponseError
  | UnknownHashError | PasswordValueError | PasswordSizeError

record deps =
  jwt_header :: string
  jwt_body :: "payload \<Rightarrow> string"
  jwt_decode :: "string \<Rightarrow> int \<Rightarrow> jwt_error + payload"
  pwd_hash :: "string \<Rightarrow> exn + string"
  pwd_verify :: "string \<Rightarrow> string \<Rightarrow> exn + bool"
  key_match :: "string \<Rightarrow> string \<Rightarrow> bool"
  access_minutes :: int
  refresh_days :: int
  session_ttl :: int

section \<open>jwt\_utils\<close>

definition jwt_encode :: "deps \<Rightarrow> payload \<Rightarrow> string" where
  "jwt_encode d p = jwt_header d @ ''.'' @ jwt_body d p"

text \<open>
  Times are seconds since the epoch; \<open>now\<close> is \<open>datetime.utcnow()\<close>. The optional
  \<open>additional_claims\<close> of \<open>generate_access_token\<close> is passed nowhere in the repository
  and is left out.
\<close>

definition access_payload :: "deps \<Rightarrow> int \<Rightarrow> jval \<Rightarrow> jval \<Rightarrow> jval \<Rightarrow> payload" where
  "access_payload d now user_id username role =
     [(''user_id'', user_id), (''username'', username), (''role'', role),
      (''type'', JStr ''access''), (''iat'', JInt now),
      (''exp'', JInt (now + 60 * access_minutes d))]"

definition generate_access_token :: "deps \<Rightarrow> int \<Rightarrow> jval \<Rightarrow> jval \<Rightarrow> jval \<Rightarrow> string" where
  "generate_access_token d now user_id username role =
     jwt_encode d (access_payload d now user_id username role)"

definition refresh_payload :: "deps \<Rightarrow> int \<Rightarrow> jval \<Rightarrow> jval \<Rightarrow> jval \<Rightarrow> payload" where
  "refresh_payload d now user_id username role =
     [(''user_id'', user_id), (''username'', username), (''role'', role),
      (''type'', JStr ''refresh''), (''iat'', JInt now),
      (''exp'', JInt (now + 86400 * refresh_days d))]"

definition generate_refresh_token :: "deps \<Rightarrow> int \<Rightarrow> jval \<Rightarrow> jval \<Rightarrow> jval \<Rightarrow> string" where
  "generate_refresh_token d now user_id username role =
     jwt_encode d (refresh_payload d now user_id username role)"

text \<open>Both handlers of \<open>decode_token\<close> return \<open>None\<close>.\<close>

definition decode_token :: "deps \<Rightarrow> string \<Rightarrow> int \<Rightarrow> payload option" where
  "decode_token d token now =
     (case jwt_decode d token now of
        Inr payload \<Rightarrow> Some payload
      | Inl ExpiredSignatureError \<Rightarrow> None
      | Inl InvalidTokenError \<Rightarrow> None)"

section \<open>The session store\<close>

text \<open>
  The Redis database the client of \<open>get_redis_client\<close> talks to: the entries with the
  time at which each expires, and the outcomes of the commands to come (\<open>True\<close>: the
  command raises, as when the server is unreachable; past the end of the list every
  command is answered). Each command consumes one outcome, whether it raises or not.
  Building the client opens no connection, so \<open>get_redis_client\<close> itself does not raise.
\<close>

record store =
  entries :: "(string \<times> string \<times> int) list"
  outages :: "bool list"

definition raises_now :: "store \<Rightarrow> bool" where
  "raises_now st = (case outages st of [] \<Rightarrow> False | b # _ \<Rightarrow> b)"

definition advance :: "store \<Rightarrow> store" where
  "advance st = st\<lparr>outages := tl (outages st)\<rparr>"

text \<open>Whether one of the next \<open>n\<close> commands raises.\<close>

definition raises_within :: "nat \<Rightarrow> store \<Rightarrow> bool" where
  "raises_within n st = (True \<in> set (take n (outages st)))"

text \<open>An entry written at time \<open>t\<close> with a TTL of \<open>n\<close> seconds is gone at \<open>t + n\<close>.\<close>

definition live :: "int \<Rightarrow> string \<times> string \<times> int \<Rightarrow> bool" where
  "live now e = (now < snd (snd e))"

definition live_keys :: "store \<Rightarrow> int \<Rightarrow> string list" where
  "live_keys st now = map fst (filter (live now) (entries st))"

text \<open>\<open>SETEX key seconds value\<close>; the server refuses a TTL that is not positive.\<close>

definition redis_setex ::
  "store \<Rightarrow> int \<Rightarrow> string \<Rightarrow> int \<Rightarrow> string \<Rightarrow> (exn + unit) \<times> store" where
  "redis_setex st now k ttl v =
     (if raises_now st then (Inl RedisConnectionError, advance st)
      else if ttl \<le> 0 then (Inl RedisResponseError, advance st)
      else (Inr (),
            (advance st)\<lparr>entries := (k, v, now + ttl) # filter (\<lambda>e. fst e \<noteq> k) (entries st)\<rparr>))"

definition redis_delete :: "store \<Rightarrow> string \<Rightarrow> (exn + unit) \<times> store" where
  "redis_delete st k =
     (if raises_now st then (Inl RedisConnectionError, advance st)
      else (Inr (), (advance st)\<lparr>entries := filter (\<lambda>e. fst e \<noteq> k) (entries st)\<rparr>))"

definition redis_exists :: "store \<Rightarrow> int \<Rightarrow> string \<Rightarrow> (exn + bool) \<times> store" where
  "redis_exists st now k =
     (if raises_now st then (Inl RedisConnectionError, advance st)
      else (Inr (k \<in> set (live_keys st now)), advance st))"

definition redis_keys :: "deps \<Rightarrow> store \<Rightarrow> int \<Rightarrow> string \<Rightarrow> (exn + string list) \<times> store" where
  "redis_keys d st now pattern =
     (if raises_now st then (Inl RedisConnectionError, advance st)
      else (Inr (filter (key_match d pattern) (live_keys st now)), advance st))"

section \<open>The user directory\<close>

record user =
  uid :: int
  username :: string
  email :: string
  password_hash :: "string option"
  role :: string

type_synonym directory = "user list"

text \<open>\<open>User.query.filter_by(username=username).first()\<close>\<close>

definition find_by_username :: "directory \<Rightarrow> string \<Rightarrow> user option" where
  "find_by_username db name = find (\<lambda>u. username u = name) db"

text \<open>\<open>User.query.filter((User.username == username) | (User.email == email)).first()\<close>\<close>

definition find_existing :: "directory \<Rightarrow> string \<Rightarrow> string \<Rightarrow> user option" where
  "find_existing db name mail = find (\<lambda>u. username u = name \<or> email u = mail) db"

text \<open>
  \<open>User.query.get(user_id)\<close>: the row with that primary key. The key is the value of
  the \<open>user_id\<close> claim; a value that is not an integer identifies no row.
\<close>

definition query_get :: "directory \<Rightarrow> jval \<Rightarrow> user option" where
  "query_get db v = (case v of JInt i \<Rightarrow> find (\<lambda>u. uid u = i) db | _ \<Rightarrow> None)"

text \<open>The primary key given to a new row.\<close>

definition next_id :: "directory \<Rightarrow> int" where
  "next_id db = fold max (map uid db) 0 + 1"

text \<open>
  \<open>db.session.add(new_user); db.session.commit()\<close>. The columns \<open>username\<close> and
  \<open>email\<close> are declared unique: the commit raises \<open>IntegrityError\<close> when a row with
  either exists. \<open>commit_fails\<close> stands for any other exception of the commit.
\<close>

datatype db_error = IntegrityError | OtherDbError

definition db_insert ::
  "directory \<Rightarrow> bool \<Rightarrow> string \<Rightarrow> string \<Rightarrow> string \<Rightarrow> string \<Rightarrow> db_error + (int \<times> directory)" where
  "db_insert db commit_fails name mail pw_hash r =
     (if commit_fails then Inl OtherDbError
      else if \<exists>u \<in> set db. username u = name \<or> email u = mail then Inl IntegrityError
      else Inr (next_id db,
                db @ [\<lparr>uid = next_id db, username = name, email = mail,
                       password_hash = Some pw_hash, role = r\<rparr>]))"

section \<open>AuthService\<close>

text \<open>
  The response dictionaries, by shape: \<open>{"error": m}\<close>, \<open>{"message": m}\<close>,
  \<open>{"message": m, "id": i}\<close>, the login response (access token, refresh token, token
  type, expires\_in, and the user's id, username, email and role) and the refresh
  response (access token, token type, expires\_in).
\<close>

datatype body =
    ErrorBody string
  | MessageBody string
  | RegisteredBody string int
  | LoginBody string string string int "int \<times> string \<times> string \<times> string"
  | RefreshBody string string int

definition quote :: string where
  "quote = [CHR 0x27]"

definition hash_password :: "deps \<Rightarrow> string \<Rightarrow> exn + string" where
  "hash_password d password = pwd_hash d password"

definition verify_password :: "deps \<Rightarrow> string \<Rightarrow> string \<Rightarrow> exn + bool" where
  "verify_password d plain_password hashed_password = pwd_verify d plain_password hashed_password"

text \<open>
  \<open>register_user\<close>. \<open>db\<close> is the directory the uniqueness query reads, \<open>db_commit\<close> the
  directory as it is when the commit runs (other requests may have committed in between).
  The result carries the directory after the call. The password is hashed after the
  uniqueness query and before the \<open>try\<close>: an exception of the hashing propagates out
  of \<open>register_user\<close>, before anything is added to the directory.
\<close>

definition register_user ::
  "deps \<Rightarrow> directory \<Rightarrow> directory \<Rightarrow> bool \<Rightarrow> string \<Rightarrow> string \<Rightarrow> string \<Rightarrow> string
     \<Rightarrow> (exn + body \<times> int) \<times> directory" where
  "register_user d db db_commit commit_fails name mail password r =
     (if r \<notin> set [''user'', ''admin'']
      then (Inr (ErrorBody (''Role must be either 'user' or 'admin'' @ quote), 400), db)
      else case find_existing db name mail of
        Some existing_user \<Rightarrow>
          (Inr (ErrorBody ''User with this username or email already exists'', 409), db)
      | None \<Rightarrow>
          (case hash_password d password of
             Inl e \<Rightarrow> (Inl e, db)
           | Inr pw_hash \<Rightarrow>
               (case db_insert db_commit commit_fails name mail pw_hash r of
                  Inr (new_id, db') \<Rightarrow>
                    (Inr (RegisteredBody ''User registered successfully'' new_id, 201), db')
                | Inl IntegrityError \<Rightarrow>
                    (Inr (ErrorBody ''User with this username or email already exists'', 409),
                     db_commit)
                | Inl OtherDbError \<Rightarrow>
                    (Inr (ErrorBody ''An error occurred while registering the user'', 500),
                     db_commit))))"

text \<open>\<open>not user.password_hash\<close> holds for \<open>None\<close> and for the empty string.\<close>

definition authenticate_user :: "deps \<Rightarrow> directory \<Rightarrow> string \<Rightarrow> string \<Rightarrow> exn + user option" where
  "authenticate_user d db name password =
     (case find_by_username db name of
        None \<Rightarrow> Inr None
      | Some u \<Rightarrow>
          (case password_hash u of
             None \<Rightarrow> Inr None
           | Some h \<Rightarrow>
               if h = [] then Inr None
               else (case verify_password d password h of
                       Inl e \<Rightarrow> Inl e
                     | Inr ok \<Rightarrow> if \<not> ok then Inr None else Inr (Some u))))"

text \<open>
  The key formats: \<open>f"session:{user_id}:{access_token[:16]}"\<close> (login and refresh),
  \<open>f"session:{user_id}:*"\<close> and \<open>f"blacklist:{token[:16]}"\<close> (logout and
  verification).
\<close>

definition session_key :: "jval \<Rightarrow> string \<Rightarrow> string" where
  "session_key user_id access_token = ''session:'' @ py_str user_id @ '':'' @ take 16 access_token"

definition session_pattern :: "jval \<Rightarrow> string" where
  "session_pattern user_id = ''session:'' @ py_str user_id @ '':*''"

definition blacklist_key :: "string \<Rightarrow> string" where
  "blacklist_key token = ''blacklist:'' @ take 16 token"

text \<open>
  \<open>str(session_data)\<close>: the repr of the dict of four strings (the escaping that repr
  applies inside a string is left out; nothing reads this value back).
\<close>

definition session_data_str :: "string \<Rightarrow> string \<Rightarrow> string \<Rightarrow> string \<Rightarrow> string" where
  "session_data_str i n r t =
     ''{'' @ quote @ ''user_id'' @ quote @ '': '' @ quote @ i @ quote
     @ '', '' @ quote @ ''username'' @ quote @ '': '' @ quote @ n @ quote
     @ '', '' @ quote @ ''role'' @ quote @ '': '' @ quote @ r @ quote
     @ '', '' @ quote @ ''token'' @ quote @ '': '' @ quote @ t @ quote @ ''}''"

text \<open>
  \<open>login_user\<close>. The two \<open>setex\<close> calls sit in one \<open>try\<close> (\<open>store_session\<close>): when
  the first raises the second is not attempted, and the handler only logs.
\<close>

definition store_session :: "deps \<Rightarrow> store \<Rightarrow> int \<Rightarrow> user \<Rightarrow> string \<Rightarrow> store" where
  "store_session d st now u access_token =
     (case redis_setex st now (session_key (JInt (uid u)) access_token)
             (session_ttl d) (str_int (uid u)) of
        (Inl e, st1) \<Rightarrow> st1
      | (Inr _, st1) \<Rightarrow>
          snd (redis_setex st1 now (''session_data:'' @ str_int (uid u)) (session_ttl d)
                 (session_data_str (str_int (uid u)) (username u) (role u) access_token)))"

definition login_user ::
  "deps \<Rightarrow> directory \<Rightarrow> store \<Rightarrow> int \<Rightarrow> string \<Rightarrow> string \<Rightarrow> (exn + body \<times> int) \<times> store" where
  "login_user d db st now name password =
     (case authenticate_user d db name password of
        Inl e \<Rightarrow> (Inl e, st)
      | Inr None \<Rightarrow> (Inr (ErrorBody ''Invalid username or password'', 401), st)
      | Inr (Some u) \<Rightarrow>
          (let access_token =
                 generate_access_token d now (JInt (uid u)) (JStr (username u)) (JStr (role u));
               refresh_token =
                 generate_refresh_token d now (JInt (uid u)) (JStr (username u)) (JStr (role u))
           in (Inr (LoginBody access_token refresh_token ''bearer'' (session_ttl d)
                      (uid u, username u, email u, role u), 200),
               store_session d st now u access_token)))"

text \<open>\<open>logout_user\<close>: the loop over the keys found, then the two further commands.\<close>

fun delete_all :: "store \<Rightarrow> string list \<Rightarrow> (exn + unit) \<times> store" where
  "delete_all st [] = (Inr (), st)"
| "delete_all st (k # ks) =
     (case redis_delete st k of
        (Inl e, st1) \<Rightarrow> (Inl e, st1)
      | (Inr _, st1) \<Rightarrow> delete_all st1 ks)"

definition logout_commands ::
  "deps \<Rightarrow> store \<Rightarrow> int \<Rightarrow> string \<Rightarrow> jval \<Rightarrow> (exn + unit) \<times> store" where
  "logout_commands d st now token user_id =
     (case redis_keys d st now (session_pattern user_id) of
        (Inl e, st1) \<Rightarrow> (Inl e, st1)
      | (Inr keys, st1) \<Rightarrow>
          (case delete_all st1 keys of
             (Inl e, st2) \<Rightarrow> (Inl e, st2)
           | (Inr _, st2) \<Rightarrow>
               (case redis_delete st2 (''session_data:'' @ py_str user_id) of
                  (Inl e, st3) \<Rightarrow> (Inl e, st3)
                | (Inr _, st3) \<Rightarrow>
                    redis_setex st3 now (blacklist_key token) (session_ttl d) ''1'')))"

definition logout_user ::
  "deps \<Rightarrow> store \<Rightarrow> int \<Rightarrow> string \<Rightarrow> jval \<Rightarrow> (body \<times> int) \<times> store" where
  "logout_user d st now token user_id =
     (case logout_commands d st now token user_id of
        (Inr _, st') \<Rightarrow> ((MessageBody ''Logged out successfully'', 200), st')
      | (Inl e, st') \<Rightarrow> ((ErrorBody ''Failed to logout'', 500), st'))"

text \<open>
  \<open>verify_session\<close> has no handler around its two store commands: an exception of the
  store is the result. \<open>not payload\<close> also holds for an empty dict.
\<close>

definition verify_session ::
  "deps \<Rightarrow> store \<Rightarrow> int \<Rightarrow> string \<Rightarrow> (exn + payload option) \<times> store" where
  "verify_session d st now token =
     (case decode_token d token now of
        None \<Rightarrow> (Inr None, st)
      | Some payload \<Rightarrow>
          if payload = [] then (Inr None, st)
          else if dict_get payload ''type'' \<noteq> JStr ''access'' then (Inr None, st)
          else (case redis_exists st now (blacklist_key token) of
                  (Inl e, st1) \<Rightarrow> (Inl e, st1)
                | (Inr blacklisted, st1) \<Rightarrow>
                    if blacklisted then (Inr None, st1)
                    else (case redis_keys d st1 now
                                 (session_pattern (dict_get payload ''user_id'')) of
                            (Inl e, st2) \<Rightarrow> (Inl e, st2)
                          | (Inr session_keys, st2) \<Rightarrow>
                              if session_keys = [] then (Inr None, st2)
                              else (Inr (Some payload), st2))))"

text \<open>
  \<open>refresh_access_token\<close>. The new token is built from the \<open>user_id\<close> and \<open>username\<close>
  claims of the presented token and the role of the directory row; the \<open>setex\<close> is
  best-effort.
\<close>

definition refresh_access_token ::
  "deps \<Rightarrow> directory \<Rightarrow> store \<Rightarrow> int \<Rightarrow> string \<Rightarrow> (body \<times> int) \<times> store" where
  "refresh_access_token d db st now refresh_token =
     (case decode_token d refresh_token now of
        None \<Rightarrow> ((ErrorBody ''Invalid refresh token'', 401), st)
      | Some payload \<Rightarrow>
          if payload = [] then ((ErrorBody ''Invalid refresh token'', 401), st)
          else if dict_get payload ''type'' \<noteq> JStr ''refresh''
          then ((ErrorBody ''Invalid token type'', 401), st)
          else (let user_id = dict_get payload ''user_id'';
                    username = dict_get payload ''username''
                in case query_get db user_id of
                     None \<Rightarrow> ((ErrorBody ''User not found'', 404), st)
                   | Some u \<Rightarrow>
                       (let access_token = generate_access_token d now user_id username (JStr (role u))
                        in ((RefreshBody access_token ''bearer'' (session_ttl d), 200),
                            snd (redis_setex st now (session_key user_id access_token)
                                   (session_ttl d) (py_str user_id))))))"

section \<open>A concrete deployment\<close>

text \<open>
  One instance of the collaborators, used to run the service on concrete inputs.

  \<^item> The header segment is the one PyJWT produces for HS256,
    the base64url text of \<open>{"alg":"HS256","typ":"JWT"}\<close>.
  \<^item> The body renders the claims and appends a signature segment; \<open>demo_decode\<close> accepts
    exactly the tokens made of the claim sets in \<open>issued\<close> (the ones signed with the
    secret), and reports one as expired from its \<open>exp\<close> on.
  \<^item> The password hasher refuses a password of more than 4096 characters and one with a
    NUL character, when hashing and when verifying, and on verifying it first identifies
    the digest by its bcrypt prefix and raises on any other digest, as
    \<open>CryptContext(schemes=["bcrypt"])\<close> does. \<open>demo_hash\<close> is the digest of a password
    it accepts.
  \<^item> \<open>glob_match\<close> is the glob matching of \<open>KEYS\<close> for patterns of literal characters,
    \<open>?\<close>, \<open>*\<close> and backslash escapes.
\<close>

definition demo_header :: string where
  "demo_header = ''eyJhbGciOiJIUzI1NiIsInR5cCI6IkpXVCJ9''"

definition demo_body :: "payload \<Rightarrow> string" where
  "demo_body p = concat (map (\<lambda>(k, v). py_str v @ '';'') p) @ ''.sig''"

definition demo_encode :: "payload \<Rightarrow> string" where
  "demo_encode p = demo_header @ ''.'' @ demo_body p"

definition demo_decode :: "payload list \<Rightarrow> string \<Rightarrow> int \<Rightarrow> jwt_error + payload" where
  "demo_decode issued token now =
     (case find (\<lambda>p. demo_encode p = token) issued of
        None \<Rightarrow> Inl InvalidTokenError
      | Some p \<Rightarrow>
          (case dict_get p ''exp'' of
             JInt e \<Rightarrow> if e \<le> now then Inl ExpiredSignatureError else Inr p
           | _ \<Rightarrow> Inr p))"

definition demo_hash :: "string \<Rightarrow> string" where
  "demo_hash password = ''$2b$12$'' @ password"

definition demo_hash_lib :: "string \<Rightarrow> exn + string" where
  "demo_hash_lib password =
     (if 4096 < length password then Inl PasswordSizeError
      else if CHR 0x00 \<in> set password then Inl PasswordValueError
      else Inr (demo_hash password))"

definition demo_verify :: "string \<Rightarrow> string \<Rightarrow> exn + bool" where
  "demo_verify password digest =
     (if \<not> list_ex (\<lambda>ident. prefix ident digest) [''$2$'', ''$2a$'', ''$2x$'', ''$2y$'', ''$2b$'']
      then Inl UnknownHashError
      else if 4096 < length password then Inl PasswordSizeError
      else if CHR 0x00 \<in> set password then Inl PasswordValueError
      else Inr (digest = demo_hash password))"

fun glob_match :: "string \<Rightarrow> string \<Rightarrow> bool" where
  "glob_match [] s = (s = [])"
| "glob_match (c # p) [] = (c = CHR ''*'' \<and> glob_match p [])"
| "glob_match (c # p) (x # s) =
     (if c = CHR ''*'' then glob_match p (x # s) \<or> glob_match (c # p) s
      else if c = CHR ''?'' then glob_match p s
      else if c = CHR 0x5C
           then (case p of [] \<Rightarrow> x = c \<and> s = [] | e # p' \<Rightarrow> x = e \<and> glob_match p' s)
      else c = x \<and> glob_match p s)"

definition demo :: "payload list \<Rightarrow> deps" where
  "demo issued =
     \<lparr>jwt_header = demo_header, jwt_body = demo_body, jwt_decode = demo_decode issued,
      pwd_hash = demo_hash_lib, pwd_verify = demo_verify, key_match = glob_match,
      access_minutes = 30, refresh_days = 7, session_ttl = 1800\<rparr>"

text \<open>Two users, and the claims of the tokens issued to them at time 1000.\<close>

definition alice :: user where
  "alice = \<lparr>uid = 1, username = ''alice'', email = ''a@x.com'',
            password_hash = Some (demo_hash ''secret1''), role = ''user''\<rparr>"

definition bob :: user where
  "bob = \<lparr>uid = 2, username = ''bob'', email = ''b@x.com'',
          password_hash = Some (demo_hash ''secret2''), role = ''admin''\<rparr>"

definition users :: directory where
  "users = [alice, bob]"


definition alice_claims :: payload where
  "alice_claims = access_payload (demo []) 1000 (JInt 1) (JStr ''alice'') (JStr ''user'')"

definition alice_refresh_claims :: payload where
  "alice_refresh_claims = refresh_payload (demo []) 1000 (JInt 1) (JStr ''alice'') (JStr ''user'')"

definition bob_claims :: payload where
  "bob_claims = access_payload (demo []) 1000 (JInt 2) (JStr ''bob'') (JStr ''admin'')"

definition dd :: deps where
  "dd = demo [alice_claims, alice_refresh_claims, bob_claims]"

definition alice_access :: string where
  "alice_access = generate_access_token dd 1000 (JInt 1) (JStr ''alice'') (JStr ''user'')"

definition alice_refresh :: string where
  "alice_refresh = generate_refresh_token dd 1000 (JInt 1) (JStr ''alice'') (JStr ''user'')"

definition bob_access :: string where
  "bob_access = generate_access_token dd 1000 (JInt 2) (JStr ''bob'') (JStr ''admin'')"

text \<open>
  The store after Alice has logged in at time 1000, after Bob has logged in as well, and
  after Alice has then logged out at time 1002.
\<close>

definition empty_store :: store where
  "empty_store = \<lparr>entries = [], outages = []\<rparr>"

definition st_alice :: store where
  "st_alice = snd (login_user dd users empty_store 1000 ''alice'' ''secret1'')"

definition st_both :: store where
  "st_both = snd (login_user dd users st_alice 1000 ''bob'' ''secret2'')"

definition st_out :: store where
  "st_out = snd (logout_user dd st_both 1002 alice_access (JInt 1))"

text \<open>
  A store whose next four commands raise, and the store with both sessions in which the
  third command to come raises.
\<close>

definition down_store :: store where
  "down_store = \<lparr>entries = [], outages = [True, True, True, True]\<rparr>"

definition flaky_store :: store where
  "flaky_store = st_both\<lparr>outages := [False, False, True]\<rparr>"

section \<open>Properties of the session store\<close>

lemma raises_within_0 [simp]: "\<not> raises_within 0 st"
  by (simp add: raises_within_def)

lemma raises_within_Suc:
  "raises_within (Suc n) st = (raises_now st \<or> raises_within n (advance st))"
  by (cases "outages st") (auto simp: raises_within_def raises_now_def advance_def)

lemma outages_advance [simp]: "outages (advance st) = tl (outages st)"
  by (simp add: advance_def)

lemma entries_advance [simp]: "entries (advance st) = entries st"
  by (simp add: advance_def)

lemma raises_within_entries [simp]:
  "raises_within n (st\<lparr>entries := es\<rparr>) = raises_within n st"
  by (simp add: raises_within_def)

lemma raises_now_entries [simp]: "raises_now (st\<lparr>entries := es\<rparr>) = raises_now st"
  by (simp add: raises_now_def)

lemma raises_within_add:
  "raises_within (m + n) st = (raises_within m st \<or> raises_within n (st\<lparr>outages := drop m (outages st)\<rparr>))"
  by (auto simp: raises_within_def take_add)

lemma delete_all_raises:
  "(\<exists>e. fst (delete_all st ks) = Inl e) = raises_within (length ks) st"
proof (induction ks arbitrary: st)
  case Nil
  then show ?case by simp
next
  case (Cons k ks)
  show ?case
  proof (cases "raises_now st")
    case True
    then show ?thesis by (simp add: redis_delete_def raises_within_Suc)
  next
    case False
    then show ?thesis
      using Cons.IH [of "(advance st)\<lparr>entries := filter (\<lambda>e. fst e \<noteq> k) (entries st)\<rparr>"]
      by (simp add: redis_delete_def raises_within_Suc)
  qed
qed

lemma delete_all_outages:
  "fst (delete_all st ks) = Inr () \<Longrightarrow> outages (snd (delete_all st ks)) = drop (length ks) (outages st)"
proof (induction ks arbitrary: st)
  case Nil
  then show ?case by simp
next
  case (Cons k ks)
  show ?case
  proof (cases "raises_now st")
    case True
    with Cons.prems show ?thesis by (simp add: redis_delete_def)
  next
    case False
    with Cons.prems show ?thesis
      using Cons.IH [of "(advance st)\<lparr>entries := filter (\<lambda>e. fst e \<noteq> k) (entries st)\<rparr>"]
      by (simp add: redis_delete_def drop_Suc)
  qed
qed

lemma delete_all_entries:
  "fst (delete_all st ks) = Inr () \<Longrightarrow>
     entries (snd (delete_all st ks)) = filter (\<lambda>e. fst e \<notin> set ks) (entries st)"
proof (induction ks arbitrary: st)
  case Nil
  then show ?case by simp
next
  case (Cons k ks)
  show ?case
  proof (cases "raises_now st")
    case True
    with Cons.prems show ?thesis by (simp add: redis_delete_def)
  next
    case False
    with Cons.prems show ?thesis
      using Cons.IH [of "(advance st)\<lparr>entries := filter (\<lambda>e. fst e \<noteq> k) (entries st)\<rparr>"]
      by (auto simp: redis_delete_def intro: filter_cong)
  qed
qed

lemma raises_within_cong: "outages a = outages b \<Longrightarrow> raises_within n a = raises_within n b"
  by (simp add: raises_within_def)

lemma raises_within_2:
  "raises_within 2 st = (raises_now st \<or> raises_now (advance st))"
proof -
  have "raises_within (Suc (Suc 0)) st = (raises_now st \<or> raises_now (advance st))"
    by (simp add: raises_within_Suc)
  then show ?thesis by (simp add: numeral_2_eq_2)
qed

lemma raises_within_plus3:
  "raises_within (n + 3) st = (raises_now st \<or> raises_within (n + 2) (advance st))"
proof -
  have "n + 3 = Suc (n + 2)" by simp
  then show ?thesis by (simp only: raises_within_Suc)
qed

lemma logout_commands_raises:
  "(\<exists>e. fst (logout_commands d st now token user_id) = Inl e) =
     (raises_within (length (filter (key_match d (session_pattern user_id)) (live_keys st now)) + 3) st
      \<or> session_ttl d \<le> 0)"
proof (cases "raises_now st")
  case True
  then show ?thesis
    by (simp add: logout_commands_def redis_keys_def raises_within_plus3)
next
  case False
  define ks where "ks = filter (key_match d (session_pattern user_id)) (live_keys st now)"
  define st1 where "st1 = advance st"
  have keys: "redis_keys d st now (session_pattern user_id) = (Inr ks, st1)"
    using False by (simp add: redis_keys_def ks_def st1_def)
  have split: "raises_within (length ks + 3) st
                 = (raises_within (length ks) st1 \<or> raises_within 2 (st1\<lparr>outages := drop (length ks) (outages st1)\<rparr>))"
  proof -
    have "raises_within (length ks + 3) st = raises_within (length ks + 2) st1"
      using False by (simp add: raises_within_plus3 st1_def)
    also have "\<dots> = (raises_within (length ks) st1
                      \<or> raises_within 2 (st1\<lparr>outages := drop (length ks) (outages st1)\<rparr>))"
      by (rule raises_within_add)
    finally show ?thesis .
  qed
  show ?thesis
  proof (cases "raises_within (length ks) st1")
    case True
    then have "\<exists>e. fst (delete_all st1 ks) = Inl e"
      using delete_all_raises [of st1 ks] by blast
    then obtain e st2 where "delete_all st1 ks = (Inl e, st2)"
      by (cases "delete_all st1 ks") auto
    then show ?thesis
      using keys True split
      by (simp add: logout_commands_def ks_def [symmetric] split: prod.splits sum.splits)
  next
    case nodel: False
    define st2 where "st2 = snd (delete_all st1 ks)"
    have del: "delete_all st1 ks = (Inr (), st2)"
    proof -
      have "\<not> (\<exists>e. fst (delete_all st1 ks) = Inl e)"
        using nodel delete_all_raises [of st1 ks] by simp
      then have "fst (delete_all st1 ks) = Inr ()"
        by (cases "fst (delete_all st1 ks)") auto
      then show ?thesis unfolding st2_def by (cases "delete_all st1 ks") simp
    qed
    have out2: "outages st2 = drop (length ks) (outages st1)"
      using delete_all_outages [of st1 ks] del by simp
    have r2: "raises_within 2 (st1\<lparr>outages := drop (length ks) (outages st1)\<rparr>) = raises_within 2 st2"
      by (rule raises_within_cong) (simp add: out2)
    have body: "logout_commands d st now token user_id =
                  (case redis_delete st2 (''session_data:'' @ py_str user_id) of
                     (Inl e, st3) \<Rightarrow> (Inl e, st3)
                   | (Inr _, st3) \<Rightarrow>
                       redis_setex st3 now (blacklist_key token) (session_ttl d) ''1'')"
      using keys del by (simp add: logout_commands_def ks_def [symmetric])
    have goal: "raises_within (length ks + 3) st = raises_within 2 st2"
      using split nodel r2 by simp
    show ?thesis
      unfolding ks_def [symmetric] goal body
      by (simp add: redis_delete_def redis_setex_def raises_within_2)
  qed
qed

section \<open>Session verification and refresh\<close>

lemma decode_token_eq:
  "decode_token d token now = (case jwt_decode d token now of Inl e \<Rightarrow> None | Inr p \<Rightarrow> Some p)"
  by (simp add: decode_token_def split: sum.splits jwt_error.splits)

lemma dict_get_Nil [simp]: "dict_get [] k = JNone"
  by (simp add: dict_get_def)

lemma redis_exists_answer:
  "\<not> raises_now st \<Longrightarrow> redis_exists st now k = (Inr (k \<in> set (live_keys st now)), advance st)"
  by (simp add: redis_exists_def)

lemma redis_keys_answer:
  "\<not> raises_now st \<Longrightarrow>
     redis_keys d st now pat = (Inr (filter (key_match d pat) (live_keys st now)), advance st)"
  by (simp add: redis_keys_def)

lemma live_keys_advance [simp]: "live_keys (advance st) now = live_keys st now"
  by (simp add: live_keys_def)

lemma verify_session_result:
  assumes "\<not> raises_within 2 st"
  shows "fst (verify_session d st now token) =
           (case jwt_decode d token now of
              Inl e \<Rightarrow> Inr None
            | Inr p \<Rightarrow>
                if dict_get p ''type'' = JStr ''access''
                   \<and> blacklist_key token \<notin> set (live_keys st now)
                   \<and> (\<exists>k \<in> set (live_keys st now).
                         key_match d (session_pattern (dict_get p ''user_id'')) k)
                then Inr (Some p) else Inr None)"
proof -
  from assms have a: "\<not> raises_now st" and b: "\<not> raises_now (advance st)"
    by (simp_all add: raises_within_2)
  show ?thesis
  proof (cases "jwt_decode d token now")
    case (Inl e)
    then show ?thesis by (simp add: verify_session_def decode_token_eq)
  next
    case (Inr p)
    show ?thesis
    proof (cases "p = []")
      case True
      with Inr show ?thesis by (simp add: verify_session_def decode_token_eq)
    next
      case False
      with Inr a b show ?thesis
        by (simp add: verify_session_def decode_token_eq redis_exists_answer redis_keys_answer
              filter_empty_conv)
    qed
  qed
qed

text \<open>When the store does not answer, its exception is what the caller of \<open>verify_session\<close> gets.\<close>

lemma verify_session_store_down:
  assumes "jwt_decode d token now = Inr p" and "dict_get p ''type'' = JStr ''access''"
      and "raises_now st"
  shows "fst (verify_session d st now token) = Inl RedisConnectionError"
proof -
  from assms(2) have "p \<noteq> []" by auto
  with assms show ?thesis
    by (simp add: verify_session_def decode_token_eq redis_exists_def)
qed

lemma refresh_success:
  assumes "jwt_decode d token now = Inr p"
      and "dict_get p ''type'' = JStr ''refresh''"
      and "query_get db (dict_get p ''user_id'') = Some u"
  shows "refresh_access_token d db st now token =
           ((RefreshBody (generate_access_token d now (dict_get p ''user_id'')
                            (dict_get p ''username'') (JStr (role u)))
               ''bearer'' (session_ttl d), 200),
            snd (redis_setex st now
                   (session_key (dict_get p ''user_id'')
                      (generate_access_token d now (dict_get p ''user_id'')
                         (dict_get p ''username'') (JStr (role u))))
                   (session_ttl d) (py_str (dict_get p ''user_id''))))"
proof -
  from assms(2) have "p \<noteq> []" by auto
  with assms show ?thesis
    by (simp add: refresh_access_token_def decode_token_eq Let_def)
qed

section \<open>Login and logout under store failure\<close>

lemma logout_user_status:
  "fst (logout_user d st now token user_id) =
     (if raises_within (length (filter (key_match d (session_pattern user_id)) (live_keys st now)) + 3) st
         \<or> session_ttl d \<le> 0
      then (ErrorBody ''Failed to logout'', 500)
      else (MessageBody ''Logged out successfully'', 200))"
proof (cases "fst (logout_commands d st now token user_id)")
  case (Inl e)
  then have "raises_within (length (filter (key_match d (session_pattern user_id)) (live_keys st now)) + 3) st
             \<or> session_ttl d \<le> 0"
    using logout_commands_raises [of d st now token user_id] by simp
  with Inl show ?thesis
    by (cases "logout_commands d st now token user_id") (simp add: logout_user_def)
next
  case (Inr u)
  then have "\<not> (raises_within (length (filter (key_match d (session_pattern user_id)) (live_keys st now)) + 3) st
             \<or> session_ttl d \<le> 0)"
    using logout_commands_raises [of d st now token user_id] by simp
  with Inr show ?thesis
    by (cases "logout_commands d st now token user_id") (simp add: logout_user_def)
qed

lemma login_user_response:
  assumes "authenticate_user d db name password = Inr (Some u)"
  shows "fst (login_user d db st now name password) =
           Inr (LoginBody
                  (generate_access_token d now (JInt (uid u)) (JStr (username u)) (JStr (role u)))
                  (generate_refresh_token d now (JInt (uid u)) (JStr (username u)) (JStr (role u)))
                  ''bearer'' (session_ttl d) (uid u, username u, email u, role u), 200)"
  using assms by (simp add: login_user_def Let_def)

lemma login_user_store_down:
  assumes "authenticate_user d db name password = Inr (Some u)" and "raises_now st"
  shows "entries (snd (login_user d db st now name password)) = entries st"
  using assms by (simp add: login_user_def Let_def store_session_def redis_setex_def)

section \<open>Logout, the blacklist and refresh\<close>

lemma live_keys_setex:
  "\<not> raises_now st \<Longrightarrow> 0 < ttl \<Longrightarrow> now \<le> now2 \<Longrightarrow> now2 < now + ttl \<Longrightarrow>
     k \<in> set (live_keys (snd (redis_setex st now k ttl v)) now2)"
  by (simp add: redis_setex_def live_keys_def live_def)

lemma logout_success_blacklists:
  assumes "fst (logout_user d st now token user_id) = (MessageBody ''Logged out successfully'', 200)"
      and "now \<le> now2" and "now2 < now + session_ttl d"
  shows "blacklist_key token \<in> set (live_keys (snd (logout_user d st now token user_id)) now2)"
proof -
  from assms(1) obtain st' where lc: "logout_commands d st now token user_id = (Inr (), st')"
    by (cases "logout_commands d st now token user_id"; cases "fst (logout_commands d st now token user_id)")
       (auto simp: logout_user_def)
  then obtain st3 where
    setex: "redis_setex st3 now (blacklist_key token) (session_ttl d) ''1'' = (Inr (), st')"
    by (auto simp: logout_commands_def split: prod.splits sum.splits)
  then have "\<not> raises_now st3" and "0 < session_ttl d"
    by (auto simp: redis_setex_def split: if_splits)
  then have "blacklist_key token
               \<in> set (live_keys (snd (redis_setex st3 now (blacklist_key token) (session_ttl d) ''1'')) now2)"
    using assms(2,3) by (rule live_keys_setex)
  with setex lc show ?thesis by (simp add: logout_user_def)
qed

lemma logout_success_entries:
  assumes "fst (logout_user d st now token user_id) = (MessageBody ''Logged out successfully'', 200)"
  shows "entries (snd (logout_user d st now token user_id)) =
           (blacklist_key token, ''1'', now + session_ttl d) #
           filter (\<lambda>e. fst e \<noteq> blacklist_key token)
             (filter (\<lambda>e. fst e \<noteq> ''session_data:'' @ py_str user_id)
                (filter (\<lambda>e. fst e \<notin> set (filter (key_match d (session_pattern user_id))
                                                (live_keys st now)))
                   (entries st)))"
proof -
  define ks where "ks = filter (key_match d (session_pattern user_id)) (live_keys st now)"
  from assms obtain st' where lc: "logout_commands d st now token user_id = (Inr (), st')"
    by (cases "logout_commands d st now token user_id"; cases "fst (logout_commands d st now token user_id)")
       (auto simp: logout_user_def)
  have up: "\<not> raises_now st"
    using lc by (auto simp: logout_commands_def redis_keys_def split: if_splits)
  then have keys: "redis_keys d st now (session_pattern user_id) = (Inr ks, advance st)"
    by (simp add: redis_keys_def ks_def)
  from lc keys obtain st2 where del: "delete_all (advance st) ks = (Inr (), st2)"
    by (auto simp: logout_commands_def split: prod.splits sum.splits)
  have e2: "entries st2 = filter (\<lambda>e. fst e \<notin> set ks) (entries st)"
    using delete_all_entries [of "advance st" ks] del by simp
  from lc keys del obtain st3 where
    d3: "redis_delete st2 (''session_data:'' @ py_str user_id) = (Inr (), st3)" and
    sx: "redis_setex st3 now (blacklist_key token) (session_ttl d) ''1'' = (Inr (), st')"
    by (auto simp: logout_commands_def split: prod.splits sum.splits)
  have e3: "entries st3 = filter (\<lambda>e. fst e \<noteq> ''session_data:'' @ py_str user_id) (entries st2)"
    using d3 by (auto simp: redis_delete_def split: if_splits)
  have e4: "entries st' = (blacklist_key token, ''1'', now + session_ttl d) #
                           filter (\<lambda>e. fst e \<noteq> blacklist_key token) (entries st3)"
    using sx by (auto simp: redis_setex_def split: if_splits)
  show ?thesis
    using lc by (simp add: logout_user_def e4 e3 e2 ks_def)
qed

lemma take16_token:
  "16 \<le> length (jwt_header d) \<Longrightarrow>
     take 16 (generate_access_token d now user_id name r) = take 16 (jwt_header d)"
  by (simp add: generate_access_token_def jwt_encode_def)

lemma verify_session_blacklisted:
  assumes "blacklist_key token \<in> set (live_keys st now)"
  shows "fst (verify_session d st now token) \<noteq> Inr (Some p)"
  using assms
  by (auto simp: verify_session_def redis_exists_def split: option.splits)

section \<open>Registration, authentication and decoding\<close>

lemma find_existing_None:
  "(find_existing db name mail = None) = (\<not> (\<exists>u \<in> set db. username u = name \<or> email u = mail))"
  by (auto simp: find_existing_def find_None_iff)

text \<open>
  An exception of the hashing is the result of \<open>register_user\<close>: the call sits before
  the \<open>try\<close>, and nothing has been added to the directory by then.
\<close>

lemma register_user_hash_raises:
  assumes "r = ''user'' \<or> r = ''admin''"
      and "find_existing db name mail = None"
      and "hash_password d password = Inl e"
  shows "register_user d db db_commit commit_fails name mail password r = (Inl e, db)"
  using assms by (auto simp: register_user_def)

section \<open>The concrete deployment evaluated\<close>

lemma str_int_1: "str_int 1 = ''1''"
  by (simp add: str_int_def digits_of.simps)
lemma str_int_2: "str_int 2 = ''2''"
  by (simp add: str_int_def digits_of.simps)
lemma str_int_1000: "str_int 1000 = ''1000''"
  by (simp add: str_int_def digits_of.simps)
lemma str_int_2800: "str_int 2800 = ''2800''"
  by (simp add: str_int_def digits_of.simps)
lemma str_int_605800: "str_int 605800 = ''605800''"
  by (simp add: str_int_def digits_of.simps)

lemma dd_fields:
  "jwt_header dd = demo_header" "jwt_body dd = demo_body"
  "jwt_decode dd = demo_decode [alice_claims, alice_refresh_claims, bob_claims]"
  "pwd_hash dd = demo_hash_lib" "pwd_verify dd = demo_verify" "key_match dd = glob_match"
  "access_minutes dd = 30" "refresh_days dd = 7" "session_ttl dd = 1800"
  by (simp_all add: dd_def demo_def)

lemma alice_claims_eq:
  "alice_claims = [(''user_id'', JInt 1), (''username'', JStr ''alice''), (''role'', JStr ''user''),
                   (''type'', JStr ''access''), (''iat'', JInt 1000), (''exp'', JInt 2800)]"
  by (simp add: alice_claims_def access_payload_def demo_def)

lemma alice_refresh_claims_eq:
  "alice_refresh_claims = [(''user_id'', JInt 1), (''username'', JStr ''alice''), (''role'', JStr ''user''),
                   (''type'', JStr ''refresh''), (''iat'', JInt 1000), (''exp'', JInt 605800)]"
  by (simp add: alice_refresh_claims_def refresh_payload_def demo_def)

lemma bob_claims_eq:
  "bob_claims = [(''user_id'', JInt 2), (''username'', JStr ''bob''), (''role'', JStr ''admin''),
                   (''type'', JStr ''access''), (''iat'', JInt 1000), (''exp'', JInt 2800)]"
  by (simp add: bob_claims_def access_payload_def demo_def)

lemma alice_access_eq:
  "alice_access = ''eyJhbGciOiJIUzI1NiIsInR5cCI6IkpXVCJ9.1;alice;user;access;1000;2800;.sig''"
  by (simp add: alice_access_def generate_access_token_def jwt_encode_def access_payload_def
        dd_fields demo_header_def demo_body_def str_int_1 str_int_1000 str_int_2800)

lemma alice_refresh_eq:
  "alice_refresh = ''eyJhbGciOiJIUzI1NiIsInR5cCI6IkpXVCJ9.1;alice;user;refresh;1000;605800;.sig''"
  by (simp add: alice_refresh_def generate_refresh_token_def jwt_encode_def refresh_payload_def
        dd_fields demo_header_def demo_body_def str_int_1 str_int_1000 str_int_605800)

lemma bob_access_eq:
  "bob_access = ''eyJhbGciOiJIUzI1NiIsInR5cCI6IkpXVCJ9.2;bob;admin;access;1000;2800;.sig''"
  by (simp add: bob_access_def generate_access_token_def jwt_encode_def access_payload_def
        dd_fields demo_header_def demo_body_def str_int_2 str_int_1000 str_int_2800)

lemma demo_tokens:
  "demo_encode alice_claims = alice_access"
  "demo_encode alice_refresh_claims = alice_refresh"
  "demo_encode bob_claims = bob_access"
  by (simp_all add: alice_access_eq alice_refresh_eq bob_access_eq alice_claims_eq
        alice_refresh_claims_eq bob_claims_eq demo_header_def demo_body_def demo_encode_def
        str_int_1 str_int_2 str_int_1000 str_int_2800 str_int_605800)

lemma demo_exp:
  "dict_get alice_claims ''exp'' = JInt 2800"
  "dict_get alice_refresh_claims ''exp'' = JInt 605800"
  "dict_get bob_claims ''exp'' = JInt 2800"
  by (simp_all add: alice_claims_eq alice_refresh_claims_eq bob_claims_eq dict_get_def)

lemma tokens_distinct:
  "alice_access \<noteq> alice_refresh" "alice_access \<noteq> bob_access" "alice_refresh \<noteq> bob_access"
  "alice_refresh \<noteq> alice_access" "bob_access \<noteq> alice_access" "bob_access \<noteq> alice_refresh"
  by (simp_all add: alice_access_eq alice_refresh_eq bob_access_eq)

lemma decode_alice_access:
  "jwt_decode dd alice_access now = (if 2800 \<le> now then Inl ExpiredSignatureError else Inr alice_claims)"
  by (simp add: dd_fields demo_decode_def demo_tokens demo_exp)

lemma decode_alice_refresh:
  "jwt_decode dd alice_refresh now = (if 605800 \<le> now then Inl ExpiredSignatureError else Inr alice_refresh_claims)"
  by (simp add: dd_fields demo_decode_def demo_tokens demo_exp tokens_distinct)

lemma decode_bob_access:
  "jwt_decode dd bob_access now = (if 2800 \<le> now then Inl ExpiredSignatureError else Inr bob_claims)"
  by (simp add: dd_fields demo_decode_def demo_tokens demo_exp tokens_distinct)

lemma tampered_distinct:
  "alice_access \<noteq> alice_access @ ''x''"
  "alice_refresh \<noteq> alice_access @ ''x''"
  "bob_access \<noteq> alice_access @ ''x''"
  by (simp_all add: alice_access_eq alice_refresh_eq bob_access_eq)

lemma decode_tampered:
  "jwt_decode dd (alice_access @ ''x'') now = Inl InvalidTokenError"
  by (simp add: dd_fields demo_decode_def demo_tokens tampered_distinct)

lemma auth_alice: "authenticate_user dd users ''alice'' ''secret1'' = Inr (Some alice)"
  by (simp add: authenticate_user_def find_by_username_def users_def alice_def bob_def
        verify_password_def dd_fields demo_verify_def demo_hash_def)

lemma auth_bob: "authenticate_user dd users ''bob'' ''secret2'' = Inr (Some bob)"
  by (simp add: authenticate_user_def find_by_username_def users_def alice_def bob_def
        verify_password_def dd_fields demo_verify_def demo_hash_def)

lemma take16_tokens:
  "take 16 alice_access = ''eyJhbGciOiJIUzI1''" "take 16 bob_access = ''eyJhbGciOiJIUzI1''"
  by (simp_all add: alice_access_eq bob_access_eq)

lemma demo_keys:
  "session_key (JInt 1) alice_access = ''session:1:eyJhbGciOiJIUzI1''"
  "session_key (JInt 2) bob_access = ''session:2:eyJhbGciOiJIUzI1''"
  "blacklist_key alice_access = ''blacklist:eyJhbGciOiJIUzI1''"
  "blacklist_key bob_access = ''blacklist:eyJhbGciOiJIUzI1''"
  "session_pattern (JInt 1) = ''session:1:*''"
  "session_pattern (JInt 2) = ''session:2:*''"
  by (simp_all add: session_key_def blacklist_key_def session_pattern_def take16_tokens
        str_int_1 str_int_2)

lemma user_fields:
  "uid alice = 1" "username alice = ''alice''" "role alice = ''user''" "email alice = ''a@x.com''"
  "uid bob = 2" "username bob = ''bob''" "role bob = ''admin''" "email bob = ''b@x.com''"
  by (simp_all add: alice_def bob_def)

lemma login_alice:
  "login_user dd users empty_store 1000 ''alice'' ''secret1'' =
     (Inr (LoginBody alice_access alice_refresh ''bearer'' 1800 (1, ''alice'', ''a@x.com'', ''user''), 200),
      \<lparr>entries = [(''session_data:1'', session_data_str ''1'' ''alice'' ''user'' alice_access, 2800),
                  (''session:1:eyJhbGciOiJIUzI1'', ''1'', 2800)],
       outages = []\<rparr>)"
  by (simp add: login_user_def auth_alice Let_def user_fields store_session_def
        alice_access_def [symmetric] alice_refresh_def [symmetric] demo_keys dd_fields
        redis_setex_def raises_now_def advance_def empty_store_def str_int_1)

lemma st_alice_eq:
  "st_alice =
     \<lparr>entries = [(''session_data:1'', session_data_str ''1'' ''alice'' ''user'' alice_access, 2800),
                 (''session:1:eyJhbGciOiJIUzI1'', ''1'', 2800)],
      outages = []\<rparr>"
  by (simp add: st_alice_def login_alice)

lemma st_both_eq:
  "st_both =
     \<lparr>entries = [(''session_data:2'', session_data_str ''2'' ''bob'' ''admin'' bob_access, 2800),
                 (''session:2:eyJhbGciOiJIUzI1'', ''2'', 2800),
                 (''session_data:1'', session_data_str ''1'' ''alice'' ''user'' alice_access, 2800),
                 (''session:1:eyJhbGciOiJIUzI1'', ''1'', 2800)],
      outages = []\<rparr>"
  by (simp add: st_both_def st_alice_eq login_user_def auth_bob Let_def user_fields store_session_def
        bob_access_def [symmetric] demo_keys dd_fields
        redis_setex_def raises_now_def advance_def str_int_2)


lemma live_keys_st_both:
  "now < 2800 \<Longrightarrow> live_keys st_both now =
     [''session_data:2'', ''session:2:eyJhbGciOiJIUzI1'', ''session_data:1'',
      ''session:1:eyJhbGciOiJIUzI1'']"
  by (simp add: st_both_eq live_keys_def live_def)

lemma logout_alice:
  "logout_user dd st_both 1002 alice_access (JInt 1) =
     ((MessageBody ''Logged out successfully'', 200),
      \<lparr>entries = [(''blacklist:eyJhbGciOiJIUzI1'', ''1'', 2802),
                  (''session_data:2'', session_data_str ''2'' ''bob'' ''admin'' bob_access, 2800),
                  (''session:2:eyJhbGciOiJIUzI1'', ''2'', 2800)],
       outages = []\<rparr>)"
proof -
  have keys: "redis_keys dd st_both 1002 ''session:1:*'' = (Inr [''session:1:eyJhbGciOiJIUzI1''], st_both)"
    by (simp add: redis_keys_def live_keys_st_both dd_fields(6))
       (simp add: st_both_eq raises_now_def advance_def)
  show ?thesis
    by (simp add: logout_user_def logout_commands_def demo_keys keys)
       (simp add: demo_keys str_int_1 st_both_eq redis_delete_def redis_setex_def raises_now_def
          advance_def dd_fields)
qed

lemma st_out_eq:
  "st_out =
      \<lparr>entries = [(''blacklist:eyJhbGciOiJIUzI1'', ''1'', 2802),
                  (''session_data:2'', session_data_str ''2'' ''bob'' ''admin'' bob_access, 2800),
                  (''session:2:eyJhbGciOiJIUzI1'', ''2'', 2800)],
       outages = []\<rparr>"
  by (simp add: st_out_def logout_alice)

lemma live_keys_st_out:
  "now < 2800 \<Longrightarrow> live_keys st_out now =
     [''blacklist:eyJhbGciOiJIUzI1'', ''session_data:2'', ''session:2:eyJhbGciOiJIUzI1'']"
  by (simp add: st_out_eq live_keys_def live_def)

lemma no_outages:
  "\<not> raises_within n empty_store" "\<not> raises_within n st_alice" "\<not> raises_within n st_both"
  "\<not> raises_within n st_out"
  by (simp_all add: raises_within_def empty_store_def st_alice_eq st_both_eq st_out_eq)

lemma claims_fields:
  "dict_get alice_claims ''type'' = JStr ''access''" "dict_get alice_claims ''user_id'' = JInt 1"
  "dict_get bob_claims ''type'' = JStr ''access''" "dict_get bob_claims ''user_id'' = JInt 2"
  "dict_get alice_refresh_claims ''type'' = JStr ''refresh''"
  "dict_get alice_refresh_claims ''user_id'' = JInt 1"
  "dict_get alice_refresh_claims ''username'' = JStr ''alice''"
  "dict_get alice_refresh_claims ''role'' = JStr ''user''"
  by (simp_all add: alice_claims_eq bob_claims_eq alice_refresh_claims_eq dict_get_def)

lemma verify_bob_before:
  "fst (verify_session dd st_both 1001 bob_access) = Inr (Some bob_claims)"
  using verify_session_result [OF no_outages(3), of dd 1001 bob_access]
  by (simp add: decode_bob_access claims_fields demo_keys live_keys_st_both dd_fields(6))

lemma verify_bob_after:
  "fst (verify_session dd st_out 1003 bob_access) = Inr None"
  using verify_session_result [OF no_outages(4), of dd 1003 bob_access]
  by (simp add: decode_bob_access claims_fields demo_keys live_keys_st_out dd_fields(6))

lemma query_get_alice: "query_get users (JInt 1) = Some alice"
  by (simp add: query_get_def users_def alice_def)

lemma logout_alice_status:
  "fst (logout_user dd st_both 1002 alice_access (JInt 1)) = (MessageBody ''Logged out successfully'', 200)"
  by (simp add: logout_alice)

lemma st_out_raises_now: "\<not> raises_now st_out"
  by (simp add: st_out_eq raises_now_def)

lemma header_length: "16 \<le> length (jwt_header dd)"
  by (simp add: dd_fields demo_header_def)

section \<open>Session keys of different users\<close>

lemma digit_nth: "k < 10 \<Longrightarrow> is_digit (''0123456789'' ! k) \<and> digit_val (''0123456789'' ! k) = k"
proof -
  assume "k < 10"
  then have "k \<in> {0, 1, 2, 3, 4, 5, 6, 7, 8, 9}" by auto
  then show ?thesis
    by (auto simp: is_digit_def digit_val_def)
qed

lemma digits_of_digits: "\<forall>c \<in> set (digits_of n). is_digit c"
proof (induction n rule: digits_of.induct)
  case (1 n)
  show ?case
  proof (cases "n < 10")
    case True
    then show ?thesis using digit_nth [of n] by (simp add: digits_of.simps [of n])
  next
    case False
    then show ?thesis
      using 1 digit_nth [of "n mod 10"] by (simp add: digits_of.simps [of n])
  qed
qed

lemma digits_val_snoc: "digits_val (ds @ [c]) = 10 * digits_val ds + digit_val c"
  by (simp add: digits_val_def)

lemma digits_val_digits_of: "digits_val (digits_of n) = n"
proof (induction n rule: digits_of.induct)
  case (1 n)
  show ?case
  proof (cases "n < 10")
    case True
    then show ?thesis
      using digit_nth [of n] by (simp add: digits_of.simps [of n] digits_val_def)
  next
    case False
    then show ?thesis
      using 1 digit_nth [of "n mod 10"]
      by (simp add: digits_of.simps [of n] digits_val_snoc)
  qed
qed

lemma digits_of_nonempty: "digits_of n \<noteq> []"
  by (simp add: digits_of.simps [of n])

lemma str_int_inj: "str_int a = str_int b \<Longrightarrow> a = b"
proof -
  assume eq: "str_int a = str_int b"
  have nd: "\<not> is_digit CHR ''-''" by (simp add: is_digit_def)
  have hd_digit: "is_digit (hd (digits_of n))" for n
    using digits_of_digits [of n] digits_of_nonempty [of n] by (cases "digits_of n") auto
  show ?thesis
  proof (cases "a < 0"; cases "b < 0")
    assume "a < 0" "b < 0"
    with eq have "digits_of (nat (- a)) = digits_of (nat (- b))" by (simp add: str_int_def)
    then have "digits_val (digits_of (nat (- a))) = digits_val (digits_of (nat (- b)))" by simp
    then have "nat (- a) = nat (- b)" by (simp only: digits_val_digits_of)
    with \<open>a < 0\<close> \<open>b < 0\<close> show ?thesis by simp
  next
    assume "a < 0" "\<not> b < 0"
    with eq have "CHR ''-'' # digits_of (nat (- a)) = digits_of (nat b)" by (simp add: str_int_def)
    then have "hd (digits_of (nat b)) = CHR ''-''" by (metis list.sel(1))
    with hd_digit [of "nat b"] nd show ?thesis by simp
  next
    assume "\<not> a < 0" "b < 0"
    with eq have "digits_of (nat a) = CHR ''-'' # digits_of (nat (- b))" by (simp add: str_int_def)
    then have "hd (digits_of (nat a)) = CHR ''-''" by (metis list.sel(1))
    with hd_digit [of "nat a"] nd show ?thesis by simp
  next
    assume "\<not> a < 0" "\<not> b < 0"
    with eq have "digits_of (nat a) = digits_of (nat b)" by (simp add: str_int_def)
    then have "digits_val (digits_of (nat a)) = digits_val (digits_of (nat b))" by simp
    then have "nat a = nat b" by (simp only: digits_val_digits_of)
    with \<open>\<not> a < 0\<close> \<open>\<not> b < 0\<close> show ?thesis by simp
  qed
qed

lemma str_int_chars: "\<forall>c \<in> set (str_int a). is_digit c \<or> c = CHR ''-''"
  using digits_of_digits by (auto simp: str_int_def)

lemma glob_star: "glob_match ''*'' s"
  by (induction s) simp_all

lemma glob_literal_star:
  "\<forall>c \<in> set p. c \<noteq> CHR ''*'' \<and> c \<noteq> CHR ''?'' \<and> c \<noteq> CHR 0x5C \<Longrightarrow>
     glob_match (p @ ''*'') s = prefix p s"
proof (induction p arbitrary: s)
  case Nil
  then show ?case using glob_star by simp
next
  case (Cons c p)
  then show ?case by (cases s) auto
qed

lemma sep_prefix:
  "c \<notin> set x \<Longrightarrow> c \<notin> set y \<Longrightarrow> prefix (x @ [c]) (y @ c # r) \<Longrightarrow> x = y"
proof (induction x arbitrary: y)
  case Nil
  then show ?case by (cases y) auto
next
  case (Cons a x)
  then show ?case by (cases y) auto
qed

lemma digit_or_minus_plain:
  "is_digit c \<or> c = CHR ''-'' \<Longrightarrow>
     c \<noteq> CHR '':'' \<and> c \<noteq> CHR ''*'' \<and> c \<noteq> CHR ''?'' \<and> c \<noteq> CHR 0x5C"
  by (auto simp: is_digit_def)

lemma str_int_no_colon: "CHR '':'' \<notin> set (str_int a)"
proof
  assume "CHR '':'' \<in> set (str_int a)"
  then have "is_digit CHR '':'' \<or> CHR '':'' = CHR ''-''"
    using str_int_chars [of a] by blast
  then show False by (simp add: is_digit_def)
qed

lemma str_int_literal:
  "c \<in> set (str_int a) \<Longrightarrow> c \<noteq> CHR ''*'' \<and> c \<noteq> CHR ''?'' \<and> c \<noteq> CHR 0x5C"
proof -
  assume "c \<in> set (str_int a)"
  then have "is_digit c \<or> c = CHR ''-''"
    using str_int_chars [of a] by blast
  then show ?thesis using digit_or_minus_plain [of c] by blast
qed

lemma session_pattern_glob:
  "glob_match (session_pattern (JInt a)) k = prefix (''session:'' @ str_int a @ '':'') k"
proof -
  have eq: "session_pattern (JInt a) = (''session:'' @ str_int a @ '':'') @ ''*''"
    by (simp add: session_pattern_def)
  have "c \<noteq> CHR ''*'' \<and> c \<noteq> CHR ''?'' \<and> c \<noteq> CHR 0x5C"
    if "c \<in> set (''session:'' @ str_int a @ '':'')" for c
  proof -
    from that have "c \<in> set ''session:'' \<or> c \<in> set (str_int a) \<or> c = CHR '':''"
      by (simp only: set_append Un_iff list.set insert_iff empty_iff) blast
    then show ?thesis
    proof (elim disjE)
      assume "c \<in> set ''session:''"
      then show ?thesis by auto
    next
      assume "c \<in> set (str_int a)"
      then show ?thesis by (rule str_int_literal)
    next
      assume "c = CHR '':''"
      then show ?thesis by simp
    qed
  qed
  then have "\<forall>c \<in> set (''session:'' @ str_int a @ '':'').
               c \<noteq> CHR ''*'' \<and> c \<noteq> CHR ''?'' \<and> c \<noteq> CHR 0x5C"
    by blast
  then show ?thesis unfolding eq by (rule glob_literal_star)
qed

lemma session_pattern_own: "glob_match (session_pattern (JInt a)) (session_key (JInt a) token)"
  by (simp add: session_pattern_glob session_key_def)

lemma session_pattern_other:
  "a \<noteq> b \<Longrightarrow> \<not> glob_match (session_pattern (JInt a)) (session_key (JInt b) token)"
proof
  assume ne: "a \<noteq> b" and "glob_match (session_pattern (JInt a)) (session_key (JInt b) token)"
  then have "prefix (''session:'' @ str_int a @ '':'') (''session:'' @ str_int b @ '':'' @ take 16 token)"
    by (simp add: session_pattern_glob session_key_def)
  then have "prefix (str_int a @ [CHR '':'']) (str_int b @ CHR '':'' # take 16 token)"
    by simp
  then have "str_int a = str_int b"
    using str_int_no_colon by (intro sep_prefix [of "CHR '':''"]) auto
  with ne show False by (auto dest: str_int_inj)
qed

text \<open>
  What a successful logout of user \<open>a\<close> leaves in place, with the glob matcher above: the
  session records of every other user.
\<close>

lemma logout_keeps_other_sessions:
  assumes "key_match d = glob_match" and "a \<noteq> b"
      and "fst (logout_user d st now token (JInt a)) = (MessageBody ''Logged out successfully'', 200)"
      and "(session_key (JInt b) other_token, v, e) \<in> set (entries st)"
  shows "(session_key (JInt b) other_token, v, e)
           \<in> set (entries (snd (logout_user d st now token (JInt a))))"
proof -
  have 1: "session_key (JInt b) other_token
             \<notin> set (filter (key_match d (session_pattern (JInt a))) (live_keys st now))"
    using assms(1,2) by (simp add: session_pattern_other)
  have 2: "session_key (JInt b) other_token \<noteq> ''session_data:'' @ py_str (JInt a)"
    by (simp add: session_key_def)
  have 3: "session_key (JInt b) other_token \<noteq> blacklist_key token"
    by (simp add: session_key_def blacklist_key_def)
  show ?thesis
    using assms(4) 1 2 3 by (simp add: logout_success_entries [OF assms(3)])
qed

section \<open>The claims\<close>



text \<open>
  Claim C2. Decoding is claimed to tell expiry from tampering. The library does raise two
  different exceptions, but \<open>decode_token\<close> catches both and returns \<open>None\<close> in either
  case: whatever the cause of the failure, the caller receives the same value.
\<close>

theorem decode_token_failure_uniform:
  assumes "jwt_decode d t1 now1 = Inl ExpiredSignatureError"
      and "jwt_decode d t2 now2 = Inl InvalidTokenError"
  shows "decode_token d t1 now1 = None \<and> decode_token d t2 now2 = None"
  using assms by (simp add: decode_token_eq)

theorem decode_token_failure_uniform_witness:
  "jwt_decode dd alice_access 2800 = Inl ExpiredSignatureError
   \<and> jwt_decode dd (alice_access @ ''x'') 2800 = Inl InvalidTokenError
   \<and> decode_token dd alice_access 2800 = None
   \<and> decode_token dd (alice_access @ ''x'') 2800 = None"
proof -
  have a: "jwt_decode dd alice_access 2800 = Inl ExpiredSignatureError"
    by (simp add: decode_alice_access)
  have b: "jwt_decode dd (alice_access @ ''x'') 2800 = Inl InvalidTokenError"
    by (rule decode_tampered)
  from a b decode_token_failure_uniform [OF a b] show ?thesis by simp
qed

text \<open>
  The claim as stated fails: an expired token and a tampered token, for which the library
  raises the two different exceptions, give the same result of \<open>decode_token\<close>.
\<close>

theorem decode_token_indistinguishable_counterexample:
  "jwt_decode dd alice_access 2800 = Inl ExpiredSignatureError
   \<and> jwt_decode dd (alice_access @ ''x'') 2800 = Inl InvalidTokenError
   \<and> decode_token dd alice_access 2800 = decode_token dd (alice_access @ ''x'') 2800"
  by (simp add: decode_alice_access decode_tampered decode_token_eq)

text \<open>
  Claim C3. Store failures are swallowed by login and surfaced by logout. Once the
  credentials are accepted, \<open>login_user\<close> answers 200 with both tokens whatever the store
  does, and writes nothing when its first write raises. \<open>logout_user\<close> answers 500
  exactly when one of the commands it issues raises (the search, one deletion per key
  found, the deletion of the session data, the blacklist write; the last also raises on
  a TTL that is not positive), and 200 otherwise.
\<close>

theorem store_failure_asymmetry:
  "(authenticate_user d db name password = Inr (Some u) \<longrightarrow>
      fst (login_user d db st now name password) =
        Inr (LoginBody
               (generate_access_token d now (JInt (uid u)) (JStr (username u)) (JStr (role u)))
               (generate_refresh_token d now (JInt (uid u)) (JStr (username u)) (JStr (role u)))
               ''bearer'' (session_ttl d) (uid u, username u, email u, role u), 200)
      \<and> (raises_now st \<longrightarrow> entries (snd (login_user d db st now name password)) = entries st))
   \<and> fst (logout_user d st' now' token user_id) =
       (if raises_within
             (length (filter (key_match d (session_pattern user_id)) (live_keys st' now')) + 3) st'
           \<or> session_ttl d \<le> 0
        then (ErrorBody ''Failed to logout'', 500)
        else (MessageBody ''Logged out successfully'', 200))"
  using login_user_response [of d db name password u st now]
    login_user_store_down [of d db name password u st now]
    logout_user_status [of d st' now' token user_id]
  by simp

theorem store_failure_asymmetry_witness:
  "authenticate_user dd users ''alice'' ''secret1'' = Inr (Some alice)
   \<and> raises_now down_store
   \<and> fst (login_user dd users down_store 1000 ''alice'' ''secret1'') =
       Inr (LoginBody alice_access alice_refresh ''bearer'' 1800
              (1, ''alice'', ''a@x.com'', ''user''), 200)
   \<and> entries (snd (login_user dd users down_store 1000 ''alice'' ''secret1'')) = []
   \<and> raises_within
        (length (filter (key_match dd (session_pattern (JInt 1))) (live_keys flaky_store 1002)) + 3)
        flaky_store
   \<and> fst (logout_user dd flaky_store 1002 alice_access (JInt 1))
       = (ErrorBody ''Failed to logout'', 500)"
proof -
  have a: "authenticate_user dd users ''alice'' ''secret1'' = Inr (Some alice)"
    by (rule auth_alice)
  have b: "raises_now down_store"
    by (simp add: raises_now_def down_store_def)
  have c: "raises_within
             (length (filter (key_match dd (session_pattern (JInt 1))) (live_keys flaky_store 1002)) + 3)
             flaky_store"
    by (simp add: raises_within_def flaky_store_def)
  have e: "entries down_store = []" by (simp add: down_store_def)
  have t: "generate_access_token dd 1000 (JInt (uid alice)) (JStr (username alice)) (JStr (role alice))
             = alice_access"
          "generate_refresh_token dd 1000 (JInt (uid alice)) (JStr (username alice)) (JStr (role alice))
             = alice_refresh"
    by (simp_all add: alice_access_def alice_refresh_def user_fields)
  show ?thesis
    using store_failure_asymmetry
            [where d = dd and db = users and name = "''alice''" and password = "''secret1''"
               and u = alice and st = down_store and now = 1000 and st' = flaky_store
               and now' = 1002 and token = alice_access and user_id = "JInt 1"]
      a b c e t
    by (simp add: user_fields dd_fields(9))
qed

text \<open>
  Claim C4. \<open>refresh_access_token\<close> looks at the decoding of the presented token, its
  \<open>type\<close> claim and the directory only: for a refresh token that decodes and whose user
  exists it answers 200 with a new access token in every state of the store. In
  particular after a logout of that user, which leaves the blacklist entry of the
  presented access token in the store, the refresh still succeeds, and when the store
  answers it writes a new session record.
\<close>

theorem refresh_ignores_logout:
  assumes "jwt_decode d refresh_token now2 = Inr p"
      and "dict_get p ''type'' = JStr ''refresh''"
      and "query_get db (dict_get p ''user_id'') = Some u"
  shows "fst (refresh_access_token d db any_store now2 refresh_token)
           = (RefreshBody
                (generate_access_token d now2 (dict_get p ''user_id'') (dict_get p ''username'')
                   (JStr (role u)))
                ''bearer'' (session_ttl d), 200)
         \<and> (fst (logout_user d st now access_token (dict_get p ''user_id''))
               = (MessageBody ''Logged out successfully'', 200)
             \<and> now \<le> now2 \<and> now2 < now + session_ttl d \<longrightarrow>
             blacklist_key access_token
               \<in> set (live_keys (snd (logout_user d st now access_token (dict_get p ''user_id''))) now2)
             \<and> fst (refresh_access_token d db
                      (snd (logout_user d st now access_token (dict_get p ''user_id''))) now2
                      refresh_token)
                 = (RefreshBody
                      (generate_access_token d now2 (dict_get p ''user_id'')
                         (dict_get p ''username'') (JStr (role u)))
                      ''bearer'' (session_ttl d), 200)
             \<and> (\<not> raises_now (snd (logout_user d st now access_token (dict_get p ''user_id''))) \<longrightarrow>
                  session_key (dict_get p ''user_id'')
                    (generate_access_token d now2 (dict_get p ''user_id'')
                       (dict_get p ''username'') (JStr (role u)))
                  \<in> set (live_keys
                           (snd (refresh_access_token d db
                                   (snd (logout_user d st now access_token (dict_get p ''user_id'')))
                                   now2 refresh_token)) now2)))"
proof -
  define st1 where "st1 = snd (logout_user d st now access_token (dict_get p ''user_id''))"
  define new_token where
    "new_token = generate_access_token d now2 (dict_get p ''user_id'') (dict_get p ''username'')
                   (JStr (role u))"
  have res: "refresh_access_token d db s now2 refresh_token =
               ((RefreshBody new_token ''bearer'' (session_ttl d), 200),
                snd (redis_setex s now2 (session_key (dict_get p ''user_id'') new_token)
                       (session_ttl d) (py_str (dict_get p ''user_id''))))" for s
    unfolding new_token_def by (rule refresh_success [OF assms(1-3)])
  have black: "blacklist_key access_token \<in> set (live_keys st1 now2)"
    if "fst (logout_user d st now access_token (dict_get p ''user_id''))
          = (MessageBody ''Logged out successfully'', 200)"
       "now \<le> now2" "now2 < now + session_ttl d"
    unfolding st1_def using that by (rule logout_success_blacklists)
  have written: "session_key (dict_get p ''user_id'') new_token
                   \<in> set (live_keys (snd (refresh_access_token d db st1 now2 refresh_token)) now2)"
    if "\<not> raises_now st1" "now \<le> now2" "now2 < now + session_ttl d"
  proof -
    from that have ttl: "0 < session_ttl d" by simp
    show ?thesis
      unfolding res snd_conv using that(1) ttl by (intro live_keys_setex) simp_all
  qed
  show ?thesis
    using black res written unfolding st1_def new_token_def by simp
qed

theorem refresh_ignores_logout_witness:
  "jwt_decode dd alice_refresh 1003 = Inr alice_refresh_claims
   \<and> dict_get alice_refresh_claims ''type'' = JStr ''refresh''
   \<and> query_get users (dict_get alice_refresh_claims ''user_id'') = Some alice
   \<and> fst (logout_user dd st_both 1002 alice_access (JInt 1))
       = (MessageBody ''Logged out successfully'', 200)
   \<and> blacklist_key alice_access \<in> set (live_keys st_out 1003)
   \<and> fst (refresh_access_token dd users st_out 1003 alice_refresh)
       = (RefreshBody (generate_access_token dd 1003 (JInt 1) (JStr ''alice'') (JStr ''user''))
            ''bearer'' 1800, 200)
   \<and> session_key (JInt 1) (generate_access_token dd 1003 (JInt 1) (JStr ''alice'') (JStr ''user''))
       \<in> set (live_keys (snd (refresh_access_token dd users st_out 1003 alice_refresh)) 1003)"
proof -
  have a: "jwt_decode dd alice_refresh 1003 = Inr alice_refresh_claims"
    by (simp add: decode_alice_refresh)
  have b: "dict_get alice_refresh_claims ''type'' = JStr ''refresh''"
    by (rule claims_fields)
  have c: "query_get users (dict_get alice_refresh_claims ''user_id'') = Some alice"
    by (simp add: claims_fields query_get_alice)
  show ?thesis
    using refresh_ignores_logout [OF a b c, where any_store = st_out and st = st_both
            and now = 1002 and access_token = alice_access]
      a b c logout_alice_status st_out_raises_now
    by (simp add: claims_fields st_out_def [symmetric] dd_fields(9) user_fields)
qed

text \<open>
  Claim C5. Logout is claimed to revoke the logging-out user only. The blacklist key is
  built from the first 16 characters of the token, and these lie inside the header
  segment, which is the same for every token the service issues. So once a logout has
  succeeded, and for as long as its blacklist entry lives, \<open>verify_session\<close> accepts no
  access token of any user: it never returns the claims.
\<close>

theorem logout_rejects_other_users:
  assumes "16 \<le> length (jwt_header d)"
      and "fst (logout_user d st now (generate_access_token d ta (JInt a) na ra) (JInt a))
             = (MessageBody ''Logged out successfully'', 200)"
      and "now \<le> now2" and "now2 < now + session_ttl d"
  shows "fst (verify_session d
                (snd (logout_user d st now (generate_access_token d ta (JInt a) na ra) (JInt a)))
                now2 (generate_access_token d tb (JInt b) nb rb)) \<noteq> Inr (Some p)"
proof -
  have "blacklist_key (generate_access_token d tb (JInt b) nb rb)
          = blacklist_key (generate_access_token d ta (JInt a) na ra)"
    using assms(1) by (simp add: blacklist_key_def take16_token)
  then show ?thesis
    using logout_success_blacklists [OF assms(2-4)]
    by (intro verify_session_blacklisted) simp
qed

text \<open>
  Alice (user 1) and Bob (user 2) are logged in and Bob's token is accepted; Alice logs
  out; Bob's session record is still in the store (\<open>logout_keeps_other_sessions\<close>),
  and Bob's token is rejected.
\<close>

theorem logout_rejects_other_users_witness:
  "16 \<le> length (jwt_header dd)
   \<and> fst (verify_session dd st_both 1001 bob_access) = Inr (Some bob_claims)
   \<and> fst (logout_user dd st_both 1002 alice_access (JInt 1))
       = (MessageBody ''Logged out successfully'', 200)
   \<and> session_key (JInt 2) bob_access \<in> set (live_keys st_out 1003)
   \<and> fst (verify_session dd st_out 1003 bob_access) \<noteq> Inr (Some bob_claims)
   \<and> fst (verify_session dd st_out 1003 bob_access) = Inr None"
proof -
  have l: "fst (logout_user dd st_both 1002
                  (generate_access_token dd 1000 (JInt 1) (JStr ''alice'') (JStr ''user'')) (JInt 1))
             = (MessageBody ''Logged out successfully'', 200)"
    using logout_alice_status by (simp add: alice_access_def)
  have t: "(1002::int) \<le> 1003" "(1003::int) < 1002 + session_ttl dd"
    by (simp_all add: dd_fields)
  have "fst (verify_session dd st_out 1003 bob_access) \<noteq> Inr (Some bob_claims)"
    using logout_rejects_other_users [OF header_length l t, of 1000 2 "JStr ''bob''" "JStr ''admin''"
            bob_claims]
    by (simp add: st_out_def alice_access_def bob_access_def)
  then show ?thesis
    using header_length verify_bob_before logout_alice_status verify_bob_after
    by (simp add: demo_keys live_keys_st_out)
qed

text \<open>
  Claim C6. For a refresh token whose user exists, the access token minted by
  \<open>refresh_access_token\<close> is the encoding of claims whose \<open>role\<close> is the role of the
  directory row, whatever role the presented token carries.
\<close>

theorem refresh_embeds_directory_role:
  assumes "jwt_decode d token now = Inr p"
      and "dict_get p ''type'' = JStr ''refresh''"
      and "query_get db (dict_get p ''user_id'') = Some u"
  shows "fst (refresh_access_token d db st now token) =
           (RefreshBody
              (jwt_encode d (access_payload d now (dict_get p ''user_id'')
                               (dict_get p ''username'') (JStr (role u))))
              ''bearer'' (session_ttl d), 200)
         \<and> dict_get (access_payload d now (dict_get p ''user_id'')
                        (dict_get p ''username'') (JStr (role u))) ''role'' = JStr (role u)"
  using refresh_success [OF assms, of st]
  by (simp add: generate_access_token_def access_payload_def dict_get_def)

text \<open>
  Alice's refresh token carries the role \<open>user\<close>; in the directory she has since become
  \<open>admin\<close>.
\<close>

theorem refresh_embeds_directory_role_witness:
  "jwt_decode dd alice_refresh 1003 = Inr alice_refresh_claims
   \<and> dict_get alice_refresh_claims ''type'' = JStr ''refresh''
   \<and> dict_get alice_refresh_claims ''role'' = JStr ''user''
   \<and> query_get [alice\<lparr>role := ''admin''\<rparr>, bob] (dict_get alice_refresh_claims ''user_id'')
       = Some (alice\<lparr>role := ''admin''\<rparr>)
   \<and> fst (refresh_access_token dd [alice\<lparr>role := ''admin''\<rparr>, bob] st_alice 1003 alice_refresh)
       = (RefreshBody
            (jwt_encode dd (access_payload dd 1003 (JInt 1) (JStr ''alice'') (JStr ''admin'')))
            ''bearer'' 1800, 200)
   \<and> dict_get (access_payload dd 1003 (JInt 1) (JStr ''alice'') (JStr ''admin'')) ''role''
       = JStr ''admin''"
proof -
  have a: "jwt_decode dd alice_refresh 1003 = Inr alice_refresh_claims"
    by (simp add: decode_alice_refresh)
  have b: "dict_get alice_refresh_claims ''type'' = JStr ''refresh''"
    by (rule claims_fields)
  have c: "query_get [alice\<lparr>role := ''admin''\<rparr>, bob] (dict_get alice_refresh_claims ''user_id'')
             = Some (alice\<lparr>role := ''admin''\<rparr>)"
    by (simp add: claims_fields query_get_def alice_def)
  show ?thesis
    using refresh_embeds_directory_role [OF a b c, of st_alice] a b c
    by (simp add: claims_fields dd_fields(9))
qed

text \<open>
  Claim C7. The rejection ladder of \<open>refresh_access_token\<close>: status 401 when the token
  does not decode or its \<open>type\<close> claim is not \<open>refresh\<close> (so for every access token),
  404 when the directory has no row for the \<open>user_id\<close> claim, and 200 only when all
  three checks pass. In that case the response carries a newly minted token, the
  encoding of claims of type \<open>access\<close> issued at the time of the call, and the
  session record for it is sent to the store; in every other case the response is an
  error body and the store is left as it was.
\<close>

theorem refresh_rejection_ladder:
  "snd (fst (refresh_access_token d db st now token)) =
     (case jwt_decode d token now of
        Inl e \<Rightarrow> 401
      | Inr p \<Rightarrow>
          if dict_get p ''type'' \<noteq> JStr ''refresh'' then 401
          else if query_get db (dict_get p ''user_id'') = None then 404
          else 200)
   \<and> (\<forall>p u. jwt_decode d token now = Inr p \<and> dict_get p ''type'' = JStr ''refresh''
          \<and> query_get db (dict_get p ''user_id'') = Some u \<longrightarrow>
          fst (refresh_access_token d db st now token) =
            (RefreshBody
               (jwt_encode d (access_payload d now (dict_get p ''user_id'')
                                (dict_get p ''username'') (JStr (role u))))
               ''bearer'' (session_ttl d), 200)
          \<and> dict_get (access_payload d now (dict_get p ''user_id'')
                         (dict_get p ''username'') (JStr (role u))) ''type'' = JStr ''access''
          \<and> dict_get (access_payload d now (dict_get p ''user_id'')
                         (dict_get p ''username'') (JStr (role u))) ''iat'' = JInt now
          \<and> snd (refresh_access_token d db st now token) =
              snd (redis_setex st now
                     (session_key (dict_get p ''user_id'')
                        (jwt_encode d (access_payload d now (dict_get p ''user_id'')
                                         (dict_get p ''username'') (JStr (role u)))))
                     (session_ttl d) (py_str (dict_get p ''user_id''))))
   \<and> (snd (fst (refresh_access_token d db st now token)) \<noteq> 200 \<longrightarrow>
         (\<exists>m. fst (fst (refresh_access_token d db st now token)) = ErrorBody m)
         \<and> snd (refresh_access_token d db st now token) = st)"
proof (intro conjI allI impI)
  show "snd (fst (refresh_access_token d db st now token)) =
     (case jwt_decode d token now of
        Inl e \<Rightarrow> 401
      | Inr p \<Rightarrow>
          if dict_get p ''type'' \<noteq> JStr ''refresh'' then 401
          else if query_get db (dict_get p ''user_id'') = None then 404
          else 200)"
  proof (cases "jwt_decode d token now")
    case (Inl e)
    then show ?thesis by (simp add: refresh_access_token_def decode_token_eq)
  next
    case (Inr p)
    show ?thesis
    proof (cases "p = []")
      case True
      with Inr show ?thesis by (simp add: refresh_access_token_def decode_token_eq)
    next
      case False
      with Inr show ?thesis
        by (simp add: refresh_access_token_def decode_token_eq Let_def split: option.splits)
    qed
  qed
next
  fix p u
  assume a: "jwt_decode d token now = Inr p \<and> dict_get p ''type'' = JStr ''refresh''
          \<and> query_get db (dict_get p ''user_id'') = Some u"
  then have ok: "jwt_decode d token now = Inr p" "dict_get p ''type'' = JStr ''refresh''"
    "query_get db (dict_get p ''user_id'') = Some u" by simp_all
  show "fst (refresh_access_token d db st now token) =
            (RefreshBody
               (jwt_encode d (access_payload d now (dict_get p ''user_id'')
                                (dict_get p ''username'') (JStr (role u))))
               ''bearer'' (session_ttl d), 200)"
    using refresh_success [OF ok, of st] by (simp add: generate_access_token_def)
  show "dict_get (access_payload d now (dict_get p ''user_id'')
                         (dict_get p ''username'') (JStr (role u))) ''type'' = JStr ''access''"
    by (simp add: access_payload_def dict_get_def)
  show "dict_get (access_payload d now (dict_get p ''user_id'')
                         (dict_get p ''username'') (JStr (role u))) ''iat'' = JInt now"
    by (simp add: access_payload_def dict_get_def)
  show "snd (refresh_access_token d db st now token) =
              snd (redis_setex st now
                     (session_key (dict_get p ''user_id'')
                        (jwt_encode d (access_payload d now (dict_get p ''user_id'')
                                         (dict_get p ''username'') (JStr (role u)))))
                     (session_ttl d) (py_str (dict_get p ''user_id'')))"
    using refresh_success [OF ok, of st] by (simp add: generate_access_token_def)
next
  assume n: "snd (fst (refresh_access_token d db st now token)) \<noteq> 200"
  show "\<exists>m. fst (fst (refresh_access_token d db st now token)) = ErrorBody m"
  proof (cases "jwt_decode d token now")
    case (Inl e)
    then show ?thesis by (simp add: refresh_access_token_def decode_token_eq)
  next
    case (Inr p)
    show ?thesis
    proof (cases "p = []")
      case True
      with Inr show ?thesis by (simp add: refresh_access_token_def decode_token_eq)
    next
      case False
      with Inr n show ?thesis
        by (auto simp: refresh_access_token_def decode_token_eq Let_def
              split: option.splits if_splits)
    qed
  qed
  show "snd (refresh_access_token d db st now token) = st"
  proof (cases "jwt_decode d token now")
    case (Inl e)
    then show ?thesis by (simp add: refresh_access_token_def decode_token_eq)
  next
    case (Inr p)
    show ?thesis
    proof (cases "p = []")
      case True
      with Inr show ?thesis by (simp add: refresh_access_token_def decode_token_eq)
    next
      case False
      with Inr n show ?thesis
        by (auto simp: refresh_access_token_def decode_token_eq Let_def
              split: option.splits if_splits)
    qed
  qed
qed

text \<open>
  A tampered token, an expired refresh token, an access token, a refresh token whose user
  is gone, and a refresh token that passes: the new token is not the presented one.
\<close>

theorem refresh_rejection_ladder_witness:
  "fst (refresh_access_token dd users st_alice 1003 (alice_access @ ''x''))
     = (ErrorBody ''Invalid refresh token'', 401)
   \<and> snd (fst (refresh_access_token dd users st_alice 605800 alice_refresh)) = 401
   \<and> fst (refresh_access_token dd users st_alice 1003 alice_access)
       = (ErrorBody ''Invalid token type'', 401)
   \<and> fst (refresh_access_token dd [bob] st_alice 1003 alice_refresh)
       = (ErrorBody ''User not found'', 404)
   \<and> snd (refresh_access_token dd [bob] st_alice 1003 alice_refresh) = st_alice
   \<and> fst (refresh_access_token dd users st_alice 1003 alice_refresh)
       = (RefreshBody
            (jwt_encode dd (access_payload dd 1003 (JInt 1) (JStr ''alice'') (JStr ''user'')))
            ''bearer'' 1800, 200)
   \<and> jwt_encode dd (access_payload dd 1003 (JInt 1) (JStr ''alice'') (JStr ''user''))
       \<noteq> alice_refresh"
proof -
  have g: "query_get [bob] (JInt 1) = None"
    by (simp add: query_get_def bob_def)
  have s: "snd (fst (refresh_access_token dd users st_alice 1003 (alice_access @ ''x''))) = 401"
          "snd (fst (refresh_access_token dd users st_alice 605800 alice_refresh)) = 401"
          "snd (fst (refresh_access_token dd users st_alice 1003 alice_access)) = 401"
          "snd (fst (refresh_access_token dd [bob] st_alice 1003 alice_refresh)) = 404"
    using refresh_rejection_ladder [of dd users st_alice 1003 "alice_access @ ''x''"]
      refresh_rejection_ladder [of dd users st_alice 605800 alice_refresh]
      refresh_rejection_ladder [of dd users st_alice 1003 alice_access]
      refresh_rejection_ladder [of dd "[bob]" st_alice 1003 alice_refresh]
    by (simp_all add: decode_tampered decode_alice_refresh decode_alice_access claims_fields g)
  have ok: "fst (refresh_access_token dd users st_alice 1003 alice_refresh)
       = (RefreshBody
            (jwt_encode dd (access_payload dd 1003 (JInt 1) (JStr ''alice'') (JStr ''user'')))
            ''bearer'' 1800, 200)"
    using refresh_rejection_ladder [of dd users st_alice 1003 alice_refresh]
    by (simp add: decode_alice_refresh claims_fields query_get_alice user_fields dd_fields(9))
  have keep: "snd (refresh_access_token dd [bob] st_alice 1003 alice_refresh) = st_alice"
    using refresh_rejection_ladder [of dd "[bob]" st_alice 1003 alice_refresh] s(4) by simp
  have m1: "fst (refresh_access_token dd users st_alice 1003 (alice_access @ ''x''))
              = (ErrorBody ''Invalid refresh token'', 401)"
    by (simp add: refresh_access_token_def decode_token_eq decode_tampered)
  have ne: "alice_claims \<noteq> []"
    by (simp add: alice_claims_eq)
  have m2: "fst (refresh_access_token dd users st_alice 1003 alice_access)
              = (ErrorBody ''Invalid token type'', 401)"
    by (simp add: refresh_access_token_def decode_token_eq decode_alice_access claims_fields ne)
  have ner: "alice_refresh_claims \<noteq> []"
    by (simp add: alice_refresh_claims_eq)
  have m3: "fst (refresh_access_token dd [bob] st_alice 1003 alice_refresh)
              = (ErrorBody ''User not found'', 404)"
    by (simp add: refresh_access_token_def decode_token_eq decode_alice_refresh claims_fields
          ner g Let_def)
  have new: "jwt_encode dd (access_payload dd 1003 (JInt 1) (JStr ''alice'') (JStr ''user''))
               \<noteq> alice_refresh"
    by (simp add: alice_refresh_eq jwt_encode_def access_payload_def dd_fields demo_header_def
          demo_body_def str_int_1)
  from s ok keep m1 m2 m3 new show ?thesis by simp
qed




text \<open>
  Claim C9. \<open>register_user\<close> is claimed to answer 409 whenever a user with the username
  or the email exists. It validates the role first: with a role other than \<open>user\<close> and
  \<open>admin\<close> it answers 400 and touches nothing. With a valid role it answers 409 and
  leaves the directory as it is, both when the uniqueness query finds the user and when
  the query finds none, the password is hashed, and the commit then raises
  \<open>IntegrityError\<close> because the user has been inserted in between.
\<close>

theorem register_user_conflict:
  "(r \<noteq> ''user'' \<and> r \<noteq> ''admin'' \<longrightarrow>
      register_user d db db_commit commit_fails name mail password r =
        (Inr (ErrorBody (''Role must be either 'user' or 'admin'' @ quote), 400), db))
   \<and> ((r = ''user'' \<or> r = ''admin'') \<and> (\<exists>u \<in> set db. username u = name \<or> email u = mail) \<longrightarrow>
      register_user d db db_commit commit_fails name mail password r =
        (Inr (ErrorBody ''User with this username or email already exists'', 409), db))
   \<and> ((r = ''user'' \<or> r = ''admin'') \<and> \<not> (\<exists>u \<in> set db. username u = name \<or> email u = mail)
       \<and> hash_password d password = Inr h
       \<and> \<not> commit_fails \<and> (\<exists>u \<in> set db_commit. username u = name \<or> email u = mail) \<longrightarrow>
      register_user d db db_commit commit_fails name mail password r =
        (Inr (ErrorBody ''User with this username or email already exists'', 409), db_commit))"
proof (intro conjI impI)
  assume "r \<noteq> ''user'' \<and> r \<noteq> ''admin''"
  then show "register_user d db db_commit commit_fails name mail password r =
        (Inr (ErrorBody (''Role must be either 'user' or 'admin'' @ quote), 400), db)"
    by (simp add: register_user_def)
next
  assume a: "(r = ''user'' \<or> r = ''admin'') \<and> (\<exists>u \<in> set db. username u = name \<or> email u = mail)"
  then have "find_existing db name mail \<noteq> None" by (simp add: find_existing_None)
  then obtain x where "find_existing db name mail = Some x" by blast
  with a show "register_user d db db_commit commit_fails name mail password r =
        (Inr (ErrorBody ''User with this username or email already exists'', 409), db)"
    by (auto simp: register_user_def)
next
  assume a: "(r = ''user'' \<or> r = ''admin'') \<and> \<not> (\<exists>u \<in> set db. username u = name \<or> email u = mail)
       \<and> hash_password d password = Inr h
       \<and> \<not> commit_fails \<and> (\<exists>u \<in> set db_commit. username u = name \<or> email u = mail)"
  then have n: "find_existing db name mail = None" by (simp add: find_existing_None)
  from a have "db_insert db_commit commit_fails name mail h r = Inl IntegrityError"
    by (simp add: db_insert_def)
  with a n show "register_user d db db_commit commit_fails name mail password r =
        (Inr (ErrorBody ''User with this username or email already exists'', 409), db_commit)"
    by (auto simp: register_user_def)
qed

text \<open>
  Alice exists: a registration of her username with the role \<open>root\<close> gives 400, with the
  role \<open>user\<close> 409; and a registration that finds only Bob at the query, while Alice is
  there at the commit, gives 409 and adds no row.
\<close>

theorem register_user_conflict_witness:
  "hash_password dd ''secret9'' = Inr (demo_hash ''secret9'')
   \<and> register_user dd users users False ''alice'' ''new@x.com'' ''secret9'' ''root'' =
       (Inr (ErrorBody (''Role must be either 'user' or 'admin'' @ quote), 400), users)
   \<and> register_user dd users users False ''alice'' ''new@x.com'' ''secret9'' ''user'' =
       (Inr (ErrorBody ''User with this username or email already exists'', 409), users)
   \<and> register_user dd [bob] [bob, alice] False ''alice'' ''new@x.com'' ''secret9'' ''user'' =
       (Inr (ErrorBody ''User with this username or email already exists'', 409), [bob, alice])"
proof -
  have a: "\<exists>u \<in> set users. username u = ''alice'' \<or> email u = ''new@x.com''"
    by (simp add: users_def alice_def)
  have b: "\<not> (\<exists>u \<in> set [bob]. username u = ''alice'' \<or> email u = ''new@x.com'')"
    by (simp add: bob_def)
  have c: "\<exists>u \<in> set [bob, alice]. username u = ''alice'' \<or> email u = ''new@x.com''"
    by (simp add: alice_def)
  have h: "hash_password dd ''secret9'' = Inr (demo_hash ''secret9'')"
    by (simp add: hash_password_def dd_fields demo_hash_lib_def)
  show ?thesis
    using register_user_conflict [of "''root''" dd users users False "''alice''" "''new@x.com''"
            "''secret9''"]
      register_user_conflict [of "''user''" dd users users False "''alice''" "''new@x.com''"
            "''secret9''"]
      register_user_conflict [of "''user''" dd "[bob]" "[bob, alice]" False "''alice''"
            "''new@x.com''" "''secret9''" "demo_hash ''secret9''"]
      a b c h
    by simp
qed

text \<open>
  The claim as stated fails: Alice exists, and the registration of her username with the
  role \<open>root\<close> is answered with 400, not 409.
\<close>

theorem register_user_invalid_role_counterexample:
  "find_existing users ''alice'' ''new@x.com'' = Some alice
   \<and> fst (register_user dd users users False ''alice'' ''new@x.com'' ''secret9'' ''root'')
       = Inr (ErrorBody (''Role must be either 'user' or 'admin'' @ quote), 400)"
  by (simp add: register_user_def find_existing_def users_def alice_def)

text \<open>
  Claim C10. \<open>verify_password\<close> is claimed never to raise on a malformed digest. It
  hands both arguments to the hashing library and has no handler: it returns what the
  library returns and raises what the library raises, and \<open>authenticate_user\<close> passes
  the exception on.
\<close>

theorem verify_password_delegates:
  "verify_password d plain digest = pwd_verify d plain digest
   \<and> (\<forall>db name u e. find_by_username db name = Some u \<and> password_hash u = Some digest
         \<and> digest \<noteq> [] \<and> pwd_verify d plain digest = Inl e
         \<longrightarrow> authenticate_user d db name plain = Inl e)"
  by (simp add: verify_password_def authenticate_user_def)

theorem verify_password_delegates_witness:
  "verify_password dd ''secret1'' (demo_hash ''other1'') = Inr False
   \<and> verify_password dd ''secret1'' ''not-a-bcrypt-digest'' = Inl UnknownHashError
   \<and> find_by_username [alice\<lparr>password_hash := Some ''not-a-bcrypt-digest''\<rparr>] ''alice''
       = Some (alice\<lparr>password_hash := Some ''not-a-bcrypt-digest''\<rparr>)
   \<and> authenticate_user dd [alice\<lparr>password_hash := Some ''not-a-bcrypt-digest''\<rparr>] ''alice'' ''secret1''
       = Inl UnknownHashError"
proof -
  have f: "find_by_username [alice\<lparr>password_hash := Some ''not-a-bcrypt-digest''\<rparr>] ''alice''
             = Some (alice\<lparr>password_hash := Some ''not-a-bcrypt-digest''\<rparr>)"
    by (simp add: find_by_username_def alice_def)
  have v: "pwd_verify dd ''secret1'' ''not-a-bcrypt-digest'' = Inl UnknownHashError"
    by (simp add: dd_fields demo_verify_def)
  have w: "pwd_verify dd ''secret1'' (demo_hash ''other1'') = Inr False"
    by (simp add: dd_fields demo_verify_def demo_hash_def)
  show ?thesis
    using verify_password_delegates [of dd "''secret1''" "''not-a-bcrypt-digest''"]
      verify_password_delegates [of dd "''secret1''" "demo_hash ''other1''"] f v w
    by simp
qed

text \<open>
  The claim as stated fails: on a digest that is not a bcrypt hash the library raises, and
  so does \<open>verify_password\<close>.
\<close>

theorem verify_password_raises_counterexample:
  "verify_password dd ''secret1'' ''not-a-bcrypt-digest'' = Inl UnknownHashError"
  by (simp add: verify_password_def dd_fields demo_verify_def)

end
